theory Spec2Isabelle
  imports Complex_Main "HOL-Library.Product_Lexorder"
begin

section \<open>Token storage (frontend/src/lib/api.ts)\<close>

text \<open>
  The browser's \<^verbatim>\<open>localStorage\<close> is the state the two functions work on. It holds the
  stored items and the two ways in which an access can throw: every access throws when
  storage is denied to the page (a \<^verbatim>\<open>SecurityError\<close>), and \<^verbatim>\<open>setItem\<close> alone throws
  when the quota is exhausted (a \<^verbatim>\<open>QuotaExceededError\<close>).
\<close>

datatype dom_exception = SecurityError | QuotaExceededError

record localStorage =
  items :: "string \<rightharpoonup> string"
  denied :: bool
  quota_exceeded :: bool

definition TOKEN_STORAGE_KEY :: string where
  "TOKEN_STORAGE_KEY = ''ragbuilder.authToken''"

definition getItem :: "localStorage \<Rightarrow> string \<Rightarrow> dom_exception + string option" where
  "getItem ls k = (if denied ls then Inl SecurityError else Inr (items ls k))"

definition setItem :: "localStorage \<Rightarrow> string \<Rightarrow> string \<Rightarrow> dom_exception + localStorage" where
  "setItem ls k v =
     (if denied ls then Inl SecurityError
      else if quota_exceeded ls then Inl QuotaExceededError
      else Inr (ls\<lparr>items := (items ls)(k \<mapsto> v)\<rparr>))"

definition removeItem :: "localStorage \<Rightarrow> string \<Rightarrow> dom_exception + localStorage" where
  "removeItem ls k =
     (if denied ls then Inl SecurityError
      else Inr (ls\<lparr>items := (items ls)(k := None)\<rparr>))"

text \<open>
  \<^verbatim>\<open>getStoredToken\<close>: the \<^verbatim>\<open>try\<close> returns the stored item, the \<^verbatim>\<open>catch\<close> returns null.
\<close>

definition getStoredToken :: "localStorage \<Rightarrow> string option" where
  "getStoredToken ls =
     (case getItem ls TOKEN_STORAGE_KEY of
        Inr v \<Rightarrow> v
      | Inl _ \<Rightarrow> None)"

text \<open>
  \<^verbatim>\<open>setStoredToken\<close>: \<^verbatim>\<open>!token\<close> holds for null and for the empty string. The result is
  a sum so that an exception leaving the function would be the value \<open>Inl\<close>; the \<^verbatim>\<open>catch\<close>
  logs a warning (the second component counts the warnings) and returns.
\<close>

definition setStoredToken ::
  "string option \<Rightarrow> localStorage \<Rightarrow> dom_exception + (localStorage \<times> nat)" where
  "setStoredToken token ls =
     (case (if token = None \<or> token = Some [] then removeItem ls TOKEN_STORAGE_KEY
            else setItem ls TOKEN_STORAGE_KEY (the token)) of
        Inr ls' \<Rightarrow> Inr (ls', 0)
      | Inl _ \<Rightarrow> Inr (ls, 1))"

section \<open>JavaScript values\<close>

text \<open>
  A JavaScript \<^verbatim>\<open>number\<close>: not-a-number, the two infinities, or a finite value. The
  finite doubles are a subset of the reals used here, so what holds for every value of
  this type holds for every double.
\<close>

datatype jsnumber = NaN | PosInfinity | NegInfinity | Num real

fun isInteger :: "jsnumber \<Rightarrow> bool" where
  "isInteger (Num r) = (of_int \<lfloor>r\<rfloor> = r)"
| "isInteger _ = False"

text \<open>\<open>lessThan_js a r\<close> is the JavaScript comparison \<^verbatim>\<open>a < r\<close> for a finite \<open>r\<close>.\<close>

fun lessThan_js :: "jsnumber \<Rightarrow> real \<Rightarrow> bool" where
  "lessThan_js (Num a) r = (a < r)"
| "lessThan_js NegInfinity r = True"
| "lessThan_js _ r = False"

fun greaterThan_js :: "jsnumber \<Rightarrow> real \<Rightarrow> bool" where
  "greaterThan_js (Num a) r = (a > r)"
| "greaterThan_js PosInfinity r = True"
| "greaterThan_js _ r = False"

text \<open>
  \<^verbatim>\<open>String.prototype.trim\<close> removes white space and line terminators from both ends.
  A \<open>char\<close> is a code unit below 256; the white space of that range is listed.
\<close>

definition isWhiteSpace :: "char \<Rightarrow> bool" where
  "isWhiteSpace c \<longleftrightarrow>
     c \<in> set [CHR 0x09, CHR 0x0A, CHR 0x0B, CHR 0x0C, CHR 0x0D, CHR 0x20, CHR 0xA0]"

definition trim :: "string \<Rightarrow> string" where
  "trim s = rev (dropWhile isWhiteSpace (rev (dropWhile isWhiteSpace s)))"

section \<open>Public types (frontend/src/types.ts)\<close>

datatype DocumentStatus = Pending | Processing | Ready | Failed

text \<open>The string literal each member of the union is.\<close>

fun status_string :: "DocumentStatus \<Rightarrow> string" where
  "status_string Pending = ''pending''"
| "status_string Processing = ''processing''"
| "status_string Ready = ''ready''"
| "status_string Failed = ''failed''"

record ChatbotDocument =
  d_id :: string
  d_file_name :: string
  d_mime_type :: string
  d_size_bytes :: jsnumber
  d_status :: DocumentStatus
  d_error :: "string option"
  d_created_at :: string
  d_updated_at :: string

text \<open>
  The object a \<^verbatim>\<open>ChatbotDocument\<close> is: its own properties in declaration order, with
  their values.
\<close>

datatype jsvalue = JString string | JNumber jsnumber | JNull

definition ChatbotDocument_entries :: "ChatbotDocument \<Rightarrow> (string \<times> jsvalue) list" where
  "ChatbotDocument_entries d =
     [(''id'', JString (d_id d)),
      (''file_name'', JString (d_file_name d)),
      (''mime_type'', JString (d_mime_type d)),
      (''size_bytes'', JNumber (d_size_bytes d)),
      (''status'', JString (status_string (d_status d))),
      (''error'', (case d_error d of None \<Rightarrow> JNull | Some e \<Rightarrow> JString e)),
      (''created_at'', JString (d_created_at d)),
      (''updated_at'', JString (d_updated_at d))]"

datatype ConversationMessageRole = User | Assistant | System | Tool

record ConversationMessage =
  m_id :: string
  m_role :: ConversationMessageRole
  m_content :: string
  m_created_at :: string

record ChatContextChunk =
  c_id :: string
  c_document_id :: string
  c_document_name :: "string option"
  c_score :: jsnumber
  c_content :: string

record ChatResponsePayload =
  resp_conversation_id :: string
  resp_reply :: ConversationMessage
  resp_context :: "ChatContextChunk list"
  resp_created_new_conversation :: bool

record CreateChatbotInput =
  in_name :: string
  in_model_provider :: string
  in_model_name :: string
  in_system_prompt :: "string option"
  in_temperature :: "jsnumber option"
  in_top_k :: "jsnumber option"

section \<open>Error messages (frontend/src/lib/api.ts)\<close>

text \<open>
  What a rejected request can throw: an axios error (with the \<^verbatim>\<open>detail\<close> of the
  response body, when there is one, and its own message), another \<^verbatim>\<open>Error\<close>, or any
  other value.
\<close>

datatype thrown = AxiosError "string option" string | Error string | OtherValue

fun getErrorMessage :: "thrown \<Rightarrow> string" where
  "getErrorMessage (AxiosError detail msg) =
     (case detail of
        Some d \<Rightarrow>
          (if d \<noteq> [] then d
           else if msg \<noteq> [] then msg
           else ''Request failed '' @ [CHR 0xE2, CHR 0x80, CHR 0x94] @ '' please try again.'')
      | None \<Rightarrow>
          (if msg \<noteq> [] then msg
           else ''Request failed '' @ [CHR 0xE2, CHR 0x80, CHR 0x94] @ '' please try again.''))"
| "getErrorMessage (Error msg) = msg"
| "getErrorMessage OtherValue = ''Something went wrong.''"

section \<open>The chat panel (frontend/src/components/ChatPanel.tsx, frontend/src/lib/chat.ts)\<close>

record ChatRequestPayload =
  req_message :: string
  req_conversation_id :: "string option"
  req_top_k :: "jsnumber option"

text \<open>\<^verbatim>\<open>ChatLogMessage\<close> is a \<^verbatim>\<open>ConversationMessage\<close> with the optional flag \<^verbatim>\<open>pending\<close>.\<close>

record ChatLogMessage = ConversationMessage +
  m_pending :: "bool option"

definition mapResponseMessage :: "ConversationMessage \<Rightarrow> ChatLogMessage" where
  "mapResponseMessage message =
     \<lparr>m_id = m_id message, m_role = m_role message, m_content = m_content message,
      m_created_at = m_created_at message, m_pending = Some False\<rparr>"

text \<open>
  The component's state: its six \<^verbatim>\<open>useState\<close> cells and the state of \<^verbatim>\<open>chatMutation\<close>.
  \<open>inFlight\<close> is \<open>Some localId\<close> from \<^verbatim>\<open>chatMutation.mutate\<close> until the request settles:
  the mutation is pending, and the callbacks passed to \<^verbatim>\<open>mutate\<close> hold that \<^verbatim>\<open>localId\<close>.
\<close>

record ChatPanelState =
  conversationId :: "string option"
  messages :: "ChatLogMessage list"
  contextChunks :: "ChatContextChunk list"
  inputValue :: string
  chatError :: "string option"
  pendingMessageId :: "string option"
  inFlight :: "string option"

definition initialState :: ChatPanelState where
  "initialState =
     \<lparr>conversationId = None, messages = [], contextChunks = [], inputValue = [],
      chatError = None, pendingMessageId = None, inFlight = None\<rparr>"

definition isPending :: "ChatPanelState \<Rightarrow> bool" where
  "isPending st \<longleftrightarrow> inFlight st \<noteq> None"

text \<open>
  \<^verbatim>\<open>handleSubmit\<close>. The result of \<^verbatim>\<open>createLocalId()\<close> and the time stamp are arguments.
  The second component is the payload given to \<^verbatim>\<open>chatMutation.mutate\<close>, which
  \<^verbatim>\<open>chatWithBot\<close> posts as it is; \<open>None\<close> when the handler returns early.
\<close>

definition handleSubmit ::
  "string \<Rightarrow> string \<Rightarrow> ChatPanelState \<Rightarrow> ChatPanelState \<times> ChatRequestPayload option" where
  "handleSubmit localId now st =
     (let trimmed = trim (inputValue st) in
      if trimmed = [] \<or> isPending st then (st, None)
      else
        let userMessage =
              \<lparr>m_id = localId, m_role = User, m_content = trimmed, m_created_at = now,
               m_pending = Some True\<rparr>
        in (st\<lparr>messages := messages st @ [userMessage],
                inputValue := [],
                chatError := None,
                pendingMessageId := Some localId,
                inFlight := Some localId\<rparr>,
            Some \<lparr>req_message = trimmed,
                  req_conversation_id = conversationId st,
                  req_top_k = None\<rparr>))"

definition onSuccess :: "string \<Rightarrow> ChatResponsePayload \<Rightarrow> ChatPanelState \<Rightarrow> ChatPanelState" where
  "onSuccess localId response st =
     st\<lparr>conversationId := Some (resp_conversation_id response),
        messages :=
          map (\<lambda>message. if m_id message = localId then message\<lparr>m_pending := Some False\<rparr>
                          else message) (messages st)
          @ [mapResponseMessage (resp_reply response)],
        contextChunks := resp_context response,
        pendingMessageId := None\<rparr>"

definition onError :: "string \<Rightarrow> thrown \<Rightarrow> ChatPanelState \<Rightarrow> ChatPanelState" where
  "onError localId error st =
     st\<lparr>chatError := Some (getErrorMessage error),
        messages := filter (\<lambda>message. m_id message \<noteq> localId) (messages st),
        pendingMessageId := None\<rparr>"

definition handleReset :: "ChatPanelState \<Rightarrow> ChatPanelState" where
  "handleReset st =
     st\<lparr>conversationId := None, messages := [], contextChunks := [], chatError := None,
        pendingMessageId := None\<rparr>"

text \<open>
  What happens to the panel: the user types, submits or resets, and the pending request
  settles. A disabled control fires no event (the text area while the mutation is pending,
  the reset button while the log is empty), and a request settles only while it is in
  flight; the mutation then leaves its pending state and runs the callback of its
  \<^verbatim>\<open>mutate\<close> call.
\<close>

datatype event =
    Typed string
  | Submitted string string
  | Resolved ChatResponsePayload
  | Rejected thrown
  | ResetClicked

text \<open>What the panel exchanged with the server, and its resets, in order.\<close>

datatype exchange = Sent ChatRequestPayload | Received string | Refused | WasReset

fun step :: "event \<Rightarrow> ChatPanelState \<Rightarrow> ChatPanelState \<times> exchange list" where
  "step (Typed v) st = (if isPending st then (st, []) else (st\<lparr>inputValue := v\<rparr>, []))"
| "step (Submitted localId now) st =
     (case handleSubmit localId now st of
        (st', None) \<Rightarrow> (st', [])
      | (st', Some payload) \<Rightarrow> (st', [Sent payload]))"
| "step (Resolved response) st =
     (case inFlight st of
        None \<Rightarrow> (st, [])
      | Some localId \<Rightarrow>
          (onSuccess localId response (st\<lparr>inFlight := None\<rparr>),
           [Received (resp_conversation_id response)]))"
| "step (Rejected error) st =
     (case inFlight st of
        None \<Rightarrow> (st, [])
      | Some localId \<Rightarrow> (onError localId error (st\<lparr>inFlight := None\<rparr>), [Refused]))"
| "step ResetClicked st =
     (if messages st = [] then (st, []) else (handleReset st, [WasReset]))"

fun run :: "event list \<Rightarrow> ChatPanelState \<times> exchange list \<Rightarrow> ChatPanelState \<times> exchange list" where
  "run [] acc = acc"
| "run (e # es) (st, seen) = (case step e st of (st', out) \<Rightarrow> run es (st', seen @ out))"

text \<open>
  The events of the user, as opposed to the two ways in which the pending request settles.
\<close>

fun userEvent :: "event \<Rightarrow> bool" where
  "userEvent (Typed _) = True"
| "userEvent (Submitted _ _) = True"
| "userEvent ResetClicked = True"
| "userEvent (Resolved _) = False"
| "userEvent (Rejected _) = False"

text \<open>
  What the panel renders: one article per message of the log, the retrieved-context
  section when there are context chunks (one item per chunk, in the list's order), and
  the error banner when \<^verbatim>\<open>chatError\<close> is a non-empty string. The score is the number
  given to \<^verbatim>\<open>toFixed(3)\<close>.
\<close>

record MessageArticle =
  art_key :: string
  art_role :: string
  art_text :: string
  art_sending :: bool

definition renderMessage :: "string \<Rightarrow> ChatLogMessage \<Rightarrow> MessageArticle" where
  "renderMessage chatbotName message =
     \<lparr>art_key = m_id message,
      art_role = (if m_role message = Assistant then chatbotName else ''You''),
      art_text = m_content message,
      art_sending = (m_pending message = Some True)\<rparr>"

definition renderMessages :: "string \<Rightarrow> ChatPanelState \<Rightarrow> MessageArticle list" where
  "renderMessages chatbotName st = map (renderMessage chatbotName) (messages st)"

record ContextItem =
  item_key :: string
  item_source :: string
  item_score :: jsnumber
  item_text :: string

definition renderChunk :: "ChatContextChunk \<Rightarrow> ContextItem" where
  "renderChunk chunk =
     \<lparr>item_key = c_id chunk,
      item_source = (case c_document_name chunk of Some n \<Rightarrow> n | None \<Rightarrow> c_document_id chunk),
      item_score = c_score chunk,
      item_text = c_content chunk\<rparr>"

definition renderContext :: "ChatPanelState \<Rightarrow> ContextItem list option" where
  "renderContext st =
     (if length (contextChunks st) > 0 then Some (map renderChunk (contextChunks st)) else None)"

definition renderError :: "ChatPanelState \<Rightarrow> string option" where
  "renderError st = (case chatError st of None \<Rightarrow> None | Some e \<Rightarrow> if e = [] then None else Some e)"

text \<open>The items of the retrieved-context section, none when the section is not shown.\<close>

definition delivered :: "ChatPanelState \<Rightarrow> ContextItem list" where
  "delivered st = (case renderContext st of None \<Rightarrow> [] | Some shown \<Rightarrow> shown)"

section \<open>The document listing (frontend/src/routes/ChatbotDetailPage.tsx)\<close>

text \<open>The own properties of the object literal \<^verbatim>\<open>documentStatusLabels\<close>.\<close>

definition documentStatusLabels :: "string \<rightharpoonup> string" where
  "documentStatusLabels =
     [''pending'' \<mapsto> ''Pending'',
      ''processing'' \<mapsto> ''Processing'',
      ''ready'' \<mapsto> ''Ready'',
      ''failed'' \<mapsto> ''Failed'']"

text \<open>The status cell: \<^verbatim>\<open>documentStatusLabels[document.status] ?? document.status\<close>.\<close>

definition statusLabel :: "ChatbotDocument \<Rightarrow> string" where
  "statusLabel document =
     (case documentStatusLabels (status_string (d_status document)) of
        Some label \<Rightarrow> label
      | None \<Rightarrow> status_string (d_status document))"

text \<open>
  A row of the documents table. The error span is rendered when \<^verbatim>\<open>document.error\<close> is
  truthy; the size and the date are the values given to the formatters.
\<close>

record DocumentRow =
  row_key :: string
  row_name :: string
  row_error :: "string option"
  row_size :: jsnumber
  row_status_class :: string
  row_status :: string
  row_updated :: string

definition renderDocument :: "ChatbotDocument \<Rightarrow> DocumentRow" where
  "renderDocument document =
     \<lparr>row_key = d_id document,
      row_name = d_file_name document,
      row_error = (case d_error document of
                     None \<Rightarrow> None
                   | Some e \<Rightarrow> if e = [] then None else Some e),
      row_size = d_size_bytes document,
      row_status_class = ''status status--'' @ status_string (d_status document),
      row_status = statusLabel document,
      row_updated = d_updated_at document\<rparr>"

section \<open>The chatbot form (frontend/src/routes/ChatbotsPage.tsx)\<close>

record FormState =
  f_name :: string
  f_model_provider :: string
  f_model_name :: string
  f_system_prompt :: string
  f_temperature :: string
  f_top_k :: string

text \<open>
  The message of a validation issue: the one the schema gives, or the library's default
  message for an issue of that kind.
\<close>

datatype field_message =
    Message string
  | InvalidTypeMessage
  | NotIntegerMessage
  | TooSmallMessage
  | TooBigMessage

text \<open>The field errors of a failed parse (\<^verbatim>\<open>parsed.error.flatten().fieldErrors\<close>).\<close>

record fieldErrors =
  fe_name :: "field_message list"
  fe_model_provider :: "field_message list"
  fe_model_name :: "field_message list"
  fe_system_prompt :: "field_message list"
  fe_temperature :: "field_message list"
  fe_top_k :: "field_message list"

text \<open>\<^verbatim>\<open>z.string().min(1, msg)\<close> and \<^verbatim>\<open>z.string().max(n, msg).optional()\<close>.\<close>

definition string_min :: "nat \<Rightarrow> string \<Rightarrow> string \<Rightarrow> field_message list" where
  "string_min n msg s = (if length s < n then [Message msg] else [])"

definition string_max_optional :: "nat \<Rightarrow> string \<Rightarrow> string option \<Rightarrow> field_message list" where
  "string_max_optional n msg v =
     (case v of None \<Rightarrow> [] | Some s \<Rightarrow> if length s > n then [Message msg] else [])"

text \<open>
  \<^verbatim>\<open>z.coerce.number()\<close> followed by its checks, on the coerced value: not-a-number is an
  invalid type and ends the parse of the field; otherwise each check of the chain adds
  its issue (\<^verbatim>\<open>.int()\<close> when asked for, \<^verbatim>\<open>.min(lo)\<close>, \<^verbatim>\<open>.max(hi)\<close>).
\<close>

definition number_checks :: "bool \<Rightarrow> real \<Rightarrow> real \<Rightarrow> jsnumber \<Rightarrow> field_message list" where
  "number_checks int_only lo hi n =
     (if n = NaN then [InvalidTypeMessage]
      else (if int_only \<and> \<not> isInteger n then [NotIntegerMessage] else [])
         @ (if lessThan_js n lo then [TooSmallMessage] else [])
         @ (if greaterThan_js n hi then [TooBigMessage] else []))"

text \<open>
  \<^verbatim>\<open>chatbotFormSchema.safeParse\<close> on the object \<^verbatim>\<open>handleSubmit\<close> builds from the form
  state. \<open>Number\<close> is JavaScript's coercion of a string to a number, which
  \<^verbatim>\<open>z.coerce\<close> applies to \<^verbatim>\<open>temperature\<close> and \<^verbatim>\<open>top_k\<close>.
\<close>

definition safeParse :: "(string \<Rightarrow> jsnumber) \<Rightarrow> FormState \<Rightarrow> fieldErrors + CreateChatbotInput" where
  "safeParse Number form =
     (let system_prompt = (if f_system_prompt form \<noteq> [] then Some (f_system_prompt form) else None);
          issues =
            \<lparr>fe_name = string_min 1 ''Name is required'' (f_name form),
             fe_model_provider = string_min 1 ''Provider is required'' (f_model_provider form),
             fe_model_name = string_min 1 ''Model is required'' (f_model_name form),
             fe_system_prompt = string_max_optional 5000 ''Prompt is too long'' system_prompt,
             fe_temperature = number_checks False 0 1 (Number (f_temperature form)),
             fe_top_k = number_checks True 1 20 (Number (f_top_k form))\<rparr>
      in if fe_name issues = [] \<and> fe_model_provider issues = [] \<and> fe_model_name issues = []
            \<and> fe_system_prompt issues = [] \<and> fe_temperature issues = [] \<and> fe_top_k issues = []
         then Inr \<lparr>in_name = f_name form,
                   in_model_provider = f_model_provider form,
                   in_model_name = f_model_name form,
                   in_system_prompt = system_prompt,
                   in_temperature = Some (Number (f_temperature form)),
                   in_top_k = Some (Number (f_top_k form))\<rparr>
         else Inl issues)"

record FormErrors =
  e_name :: "field_message option"
  e_model_provider :: "field_message option"
  e_model_name :: "field_message option"
  e_system_prompt :: "field_message option"
  e_temperature :: "field_message option"
  e_top_k :: "field_message option"

record ChatbotsPageState =
  formState :: FormState
  formErrors :: FormErrors
  isCreating :: bool
  serverError :: "string option"

text \<open>\<^verbatim>\<open>issues.field?.[0]\<close>: the first message of the field, undefined when it has none.\<close>

fun first_message :: "field_message list \<Rightarrow> field_message option" where
  "first_message [] = None"
| "first_message (m # _) = Some m"

text \<open>
  \<^verbatim>\<open>handleSubmit\<close> of the page. The second component is the payload given to
  \<^verbatim>\<open>createMutation.mutate\<close>, whose mutation function calls \<^verbatim>\<open>createChatbot\<close> with it;
  \<open>None\<close> when the handler returns without calling it.
\<close>

definition ChatbotsPage_handleSubmit ::
  "(string \<Rightarrow> jsnumber) \<Rightarrow> ChatbotsPageState \<Rightarrow> ChatbotsPageState \<times> CreateChatbotInput option" where
  "ChatbotsPage_handleSubmit Number st =
     (case safeParse Number (formState st) of
        Inl issues \<Rightarrow>
          (st\<lparr>formErrors :=
                 \<lparr>e_name = first_message (fe_name issues),
                  e_model_provider = first_message (fe_model_provider issues),
                  e_model_name = first_message (fe_model_name issues),
                  e_system_prompt = first_message (fe_system_prompt issues),
                  e_temperature = first_message (fe_temperature issues),
                  e_top_k = first_message (fe_top_k issues)\<rparr>,
               serverError := None\<rparr>,
           None)
      | Inr data \<Rightarrow>
          (st\<lparr>serverError := None\<rparr>,
           Some (data\<lparr>in_system_prompt :=
                   (case in_system_prompt data of
                      None \<Rightarrow> None
                    | Some p \<Rightarrow> if trim p = [] then None else Some (trim p))\<rparr>)))"

text \<open>The value \<open>top_k\<close> parses as the integer \<open>k\<close>.\<close>

definition parses_as :: "(string \<Rightarrow> jsnumber) \<Rightarrow> string \<Rightarrow> int \<Rightarrow> bool" where
  "parses_as Number s k \<longleftrightarrow> Number s = Num (of_int k)"

section \<open>The ingestion and retrieval core behind the interface\<close>

text \<open>
  The upload path, the Ingestion Job Controller, the Vector Index and the Retrieval Engine
  run in the backend and the worker, whose code is not among the sources. The definitions
  of this section are written from the spec (sections 3, 4.4, 4.5, 4.7 and 7).
\<close>

text \<open>
  Modelled from the spec: the upload path (missing). A document is created at upload in
  state \<open>Pending\<close>, the only initial state, with no error.
\<close>

definition uploaded :: "string \<Rightarrow> string \<Rightarrow> string \<Rightarrow> jsnumber \<Rightarrow> string \<Rightarrow> ChatbotDocument" where
  "uploaded ident file_name mime_type size_bytes now =
     \<lparr>d_id = ident, d_file_name = file_name, d_mime_type = mime_type, d_size_bytes = size_bytes,
      d_status = Pending, d_error = None, d_created_at = now, d_updated_at = now\<rparr>"

text \<open>
  Modelled from the spec: the transitions of the Ingestion Job Controller (missing). A
  claimed job is \<open>Pending \<rightarrow> Processing\<close>, a completed one \<open>Processing \<rightarrow> Ready\<close>, a stage
  failure \<open>Processing \<rightarrow> Failed\<close> with a recorded error string, an expired lease leaves a
  job in \<open>Processing\<close> for another worker, and a resubmission is
  \<open>Ready | Failed \<rightarrow> Pending\<close>, which starts a new attempt from the initial state (the
  error recorded by the failed attempt goes with that attempt). No other transition
  exists: an event that does not apply gives \<open>None\<close>.
\<close>

datatype job_event = Claim | Reclaim | Complete | Fail string | Resubmit

fun job_step :: "job_event \<Rightarrow> ChatbotDocument \<Rightarrow> ChatbotDocument option" where
  "job_step Claim d =
     (if d_status d = Pending then Some (d\<lparr>d_status := Processing\<rparr>) else None)"
| "job_step Reclaim d =
     (if d_status d = Processing then Some d else None)"
| "job_step Complete d =
     (if d_status d = Processing then Some (d\<lparr>d_status := Ready\<rparr>) else None)"
| "job_step (Fail cause) d =
     (if d_status d = Processing then Some (d\<lparr>d_status := Failed, d_error := Some cause\<rparr>)
      else None)"
| "job_step Resubmit d =
     (if d_status d = Ready \<or> d_status d = Failed
      then Some (d\<lparr>d_status := Pending, d_error := None\<rparr>) else None)"

text \<open>
  Modelled from the spec: the life of a document under the Job Controller (missing), as
  the sequence of its transitions.
\<close>

fun job_run :: "job_event list \<Rightarrow> ChatbotDocument \<Rightarrow> ChatbotDocument option" where
  "job_run [] d = Some d"
| "job_run (e # es) d = (case job_step e d of None \<Rightarrow> None | Some d' \<Rightarrow> job_run es d')"

text \<open>
  Modelled from the spec: the Vector Index of a tenant (missing), one vector per chunk
  id. \<open>add\<close> inserts or replaces the vector of a chunk id.
\<close>

type_synonym vector_index = "(nat \<times> real list) list"

definition add :: "nat \<Rightarrow> real list \<Rightarrow> vector_index \<Rightarrow> vector_index" where
  "add chunkId v idx = filter (\<lambda>(c, _). c \<noteq> chunkId) idx @ [(chunkId, v)]"

text \<open>
  Modelled from the spec: \<open>removeByDocument\<close> of the Vector Index (missing) removes every
  vector of the chunks of a document; \<open>owner\<close> gives the document of a chunk.
\<close>

definition removeByDocument :: "(nat \<Rightarrow> string) \<Rightarrow> string \<Rightarrow> vector_index \<Rightarrow> vector_index" where
  "removeByDocument owner documentId idx = filter (\<lambda>(c, _). owner c \<noteq> documentId) idx"

text \<open>
  Modelled from the spec: the score of the Vector Index (missing) is the cosine
  similarity of the query vector and the indexed vector.
\<close>

definition cosine :: "real list \<Rightarrow> real list \<Rightarrow> real" where
  "cosine u v =
     (\<Sum>(a, b) \<leftarrow> zip u v. a * b) / (sqrt (\<Sum>a \<leftarrow> u. a * a) * sqrt (\<Sum>b \<leftarrow> v. b * b))"

definition scored :: "vector_index \<Rightarrow> real list \<Rightarrow> (nat \<times> real) list" where
  "scored idx q = map (\<lambda>(c, v). (c, cosine q v)) idx"

text \<open>
  Modelled from the spec: \<open>query\<close> of the Vector Index (missing) orders the scored pairs
  by descending score, ties by ascending chunk id, and returns the first \<open>k\<close>: fewer when
  the index holds fewer. The sort key puts the negated score before the chunk id, in
  lexicographic order.
\<close>

definition rank_key :: "nat \<times> real \<Rightarrow> real \<times> nat" where
  "rank_key = (\<lambda>(c, s). (- s, c))"

definition query :: "vector_index \<Rightarrow> real list \<Rightarrow> nat \<Rightarrow> (nat \<times> real) list" where
  "query idx q k = take k (sort_key rank_key (scored idx q))"

text \<open>An index holds at most one vector per chunk id.\<close>

definition index_ok :: "vector_index \<Rightarrow> bool" where
  "index_ok idx \<longleftrightarrow> distinct (map fst idx)"

text \<open>
  The two orders a result list can be in: strictly descending by score, and descending
  by score with equal scores in ascending chunk id.
\<close>

definition strictly_descending_by_score :: "(nat \<times> real) list \<Rightarrow> bool" where
  "strictly_descending_by_score rs = sorted_wrt (\<lambda>a b. snd a > snd b) rs"

definition ranked :: "(nat \<times> real) list \<Rightarrow> bool" where
  "ranked rs = sorted_wrt (\<lambda>a b. snd a > snd b \<or> (snd a = snd b \<and> fst a < fst b)) rs"

text \<open>
  Modelled from the spec: the contents of a tenant's index (missing). The index holds the
  embeddings of the chunks of the tenant's \<open>Ready\<close> documents, no more and no less.
\<close>

record embedding =
  em_chunk :: nat
  em_document :: string
  em_vector :: "real list"

definition ready_documents :: "ChatbotDocument list \<Rightarrow> ChatbotDocument list" where
  "ready_documents docs = filter (\<lambda>d. d_status d = Ready) docs"

definition tenant_index :: "ChatbotDocument list \<Rightarrow> embedding list \<Rightarrow> vector_index" where
  "tenant_index docs embs =
     map (\<lambda>e. (em_chunk e, em_vector e))
       (filter (\<lambda>e. em_document e \<in> set (map d_id (ready_documents docs))) embs)"

text \<open>
  Modelled from the spec: \<open>retrieve\<close> of the Retrieval Engine (missing). It embeds the
  query text as a single-item batch, queries the tenant's index for the top \<open>k\<close> (the
  configured default when the caller gives none, clamped to 20), and resolves each chunk
  id to a context chunk. The embedding client, which fails with a transient or a
  permanent error, and the join against the persisted records are external
  collaborators, taken as arguments; a tenant is given by its documents and embeddings.
\<close>

datatype embed_error = TransientError | PermanentError

definition MAX_TOP_K :: nat where
  "MAX_TOP_K = 20"

definition retrieve ::
  "(string list \<Rightarrow> embed_error + real list list) \<Rightarrow> (nat \<Rightarrow> real \<Rightarrow> ChatContextChunk) \<Rightarrow> nat \<Rightarrow>
   ChatbotDocument list \<times> embedding list \<Rightarrow> string \<Rightarrow> nat option \<Rightarrow>
   embed_error + ChatContextChunk list" where
  "retrieve embedClient resolve default_k tenant queryText k =
     (case embedClient [queryText] of
        Inl e \<Rightarrow> Inl e
      | Inr vectors \<Rightarrow>
          (case vectors of
             [v] \<Rightarrow>
               Inr (map (\<lambda>(c, s). resolve c s)
                      (query (tenant_index (fst tenant) (snd tenant)) v
                         (min MAX_TOP_K (case k of None \<Rightarrow> default_k | Some n \<Rightarrow> n))))
           | _ \<Rightarrow> Inl PermanentError))"

text \<open>
  Modelled from the spec: the persisted Chunk records (missing). A chunk is a span of
  extracted text of one document, with its sequence index in that document.
\<close>

record chunk_record =
  ch_id :: nat
  ch_document :: string
  ch_sequence :: nat
  ch_text :: string

text \<open>
  Modelled from the spec: the resolution step of the Retrieval Engine (missing), a
  read-only join against the persisted Chunk and Document records. It resolves a chunk id
  and its score to a context chunk with the chunk's text and the name of the document
  that owns the chunk; \<open>ident\<close> gives the id as the interface writes it. The interface
  allows a null document name: it is what the join gives when the document record is not
  found, and a chunk id with no record resolves to an entry with no name and no text.
\<close>

definition resolve_join ::
  "chunk_record list \<Rightarrow> ChatbotDocument list \<Rightarrow> (nat \<Rightarrow> string) \<Rightarrow> nat \<Rightarrow> real \<Rightarrow> ChatContextChunk" where
  "resolve_join chunks docs ident c s =
     (case find (\<lambda>ch. ch_id ch = c) chunks of
        None \<Rightarrow>
          \<lparr>c_id = ident c, c_document_id = [], c_document_name = None, c_score = Num s,
           c_content = []\<rparr>
      | Some ch \<Rightarrow>
          \<lparr>c_id = ident c, c_document_id = ch_document ch,
           c_document_name = map_option d_file_name (find (\<lambda>d. d_id d = ch_document ch) docs),
           c_score = Num s, c_content = ch_text ch\<rparr>)"

text \<open>
  Modelled from the spec: the referential integrity of the persisted records (missing).
  Chunk ids are unique, and every embedding belongs to one chunk record, which belongs to
  the embedding's document.
\<close>

definition persisted_ok :: "chunk_record list \<Rightarrow> embedding list \<Rightarrow> bool" where
  "persisted_ok chunks embs \<longleftrightarrow>
     distinct (map ch_id chunks) \<and>
     (\<forall>e \<in> set embs. \<exists>ch \<in> set chunks. ch_id ch = em_chunk e \<and> ch_document ch = em_document e)"

section \<open>Sample inputs\<close>

text \<open>An excerpt of JavaScript's \<^verbatim>\<open>Number\<close> on strings: the values of five inputs.\<close>

definition Number_sample :: "string \<Rightarrow> jsnumber" where
  "Number_sample s =
     (if s = ''5'' then Num 5
      else if s = ''25'' then Num 25
      else if s = ''0.3'' then Num 0.3
      else if s = [] then Num 0
      else NaN)"

definition sample_form :: "string \<Rightarrow> ChatbotsPageState" where
  "sample_form k =
     \<lparr>formState =
        \<lparr>f_name = ''Support Bot'', f_model_provider = ''gemini'',
         f_model_name = ''models/gemini-2.5-flash'', f_system_prompt = ''Answer with context'',
         f_temperature = ''0.3'', f_top_k = k\<rparr>,
      formErrors =
        \<lparr>e_name = None, e_model_provider = None, e_model_name = None, e_system_prompt = None,
         e_temperature = None, e_top_k = None\<rparr>,
      isCreating = True, serverError = None\<rparr>"

definition sample_document :: ChatbotDocument where
  "sample_document =
     \<lparr>d_id = ''doc-1'', d_file_name = ''faq.txt'', d_mime_type = ''text/plain'',
      d_size_bytes = Num 2048, d_status = Ready, d_error = None,
      d_created_at = ''2025-01-01T00:00:00Z'', d_updated_at = ''2025-01-01T00:05:00Z''\<rparr>"

definition sample_reply :: ConversationMessage where
  "sample_reply =
     \<lparr>m_id = ''msg-assistant'', m_role = Assistant, m_content = ''Hello! How can I help?'',
      m_created_at = ''2025-01-01T00:00:01Z''\<rparr>"

definition sample_chunk :: "string option \<Rightarrow> ChatContextChunk" where
  "sample_chunk name =
     \<lparr>c_id = ''chunk-1'', c_document_id = ''doc-1'', c_document_name = name,
      c_score = Num 0.9123, c_content = ''Reset your password from the profile page.''\<rparr>"

definition sample_response :: "ChatContextChunk list \<Rightarrow> ChatResponsePayload" where
  "sample_response chunks =
     \<lparr>resp_conversation_id = ''conv-1'', resp_reply = sample_reply, resp_context = chunks,
      resp_created_new_conversation = True\<rparr>"

definition typed_hi :: ChatPanelState where
  "typed_hi = initialState\<lparr>inputValue := ''hi''\<rparr>"

definition answered_session :: "event list" where
  "answered_session =
     [Typed ''  hi '', Submitted ''local-1'' ''t1'',
      Resolved (sample_response [sample_chunk (Some ''faq.txt'')]), Typed ''more'']"

definition answered_state :: ChatPanelState where
  "answered_state = fst (run answered_session (initialState, []))"

definition resubmitted_state :: ChatPanelState where
  "resubmitted_state = fst (handleSubmit ''local-2'' ''t2'' answered_state)"

definition race_session :: "event list" where
  "race_session =
     [Typed ''hi'', Submitted ''local-1'' ''t1'', ResetClicked, Resolved (sample_response []),
      Typed ''again'']"

definition pending_session :: "event list" where
  "pending_session = [Typed ''hi'', Submitted ''local-1'' ''t1'']"

definition working_storage :: localStorage where
  "working_storage =
     \<lparr>items = [TOKEN_STORAGE_KEY \<mapsto> ''old''], denied = False, quota_exceeded = False\<rparr>"

definition embed_unit :: "string list \<Rightarrow> embed_error + real list list" where
  "embed_unit texts = Inr (map (\<lambda>_. [1, 0]) texts)"

definition resolve_sample :: "nat \<Rightarrow> real \<Rightarrow> ChatContextChunk" where
  "resolve_sample c s =
     \<lparr>c_id = (if c = 1 then ''chunk-1'' else if c = 2 then ''chunk-2'' else ''chunk-3''),
      c_document_id = ''doc-1'', c_document_name = Some ''faq.txt'', c_score = Num s,
      c_content = []\<rparr>"

definition sample_ident :: "nat \<Rightarrow> string" where
  "sample_ident c = (if c = 1 then ''chunk-1'' else if c = 2 then ''chunk-2'' else ''chunk-3'')"

definition sample_documents :: "ChatbotDocument list" where
  "sample_documents =
     [sample_document,
      sample_document\<lparr>d_id := ''doc-2'', d_file_name := ''draft.txt'', d_status := Processing\<rparr>]"

definition sample_embeddings :: "embedding list" where
  "sample_embeddings =
     [\<lparr>em_chunk = 1, em_document = ''doc-1'', em_vector = [3, 4]\<rparr>,
      \<lparr>em_chunk = 2, em_document = ''doc-1'', em_vector = [1, 0]\<rparr>,
      \<lparr>em_chunk = 3, em_document = ''doc-2'', em_vector = [1, 0]\<rparr>]"

definition sample_chunks :: "chunk_record list" where
  "sample_chunks =
     [\<lparr>ch_id = 1, ch_document = ''doc-1'', ch_sequence = 0, ch_text = ''Open the profile page.''\<rparr>,
      \<lparr>ch_id = 2, ch_document = ''doc-1'', ch_sequence = 1, ch_text = ''Reset your password.''\<rparr>,
      \<lparr>ch_id = 3, ch_document = ''doc-2'', ch_sequence = 0, ch_text = ''Unfinished.''\<rparr>]"

definition tied_index :: vector_index where
  "tied_index = add 2 [1, 0] (add 1 [1, 0] [])"

section \<open>Token storage: the round trip\<close>

text \<open>
  C10. When the storage access does not throw, storing a non-empty token and reading it
  back gives that token, and storing null and reading back gives null. When the storage
  access throws, \<^verbatim>\<open>getStoredToken\<close> gives null and \<^verbatim>\<open>setStoredToken\<close> returns normally
  after its warning, with the storage as it was. \<^verbatim>\<open>setStoredToken\<close> never lets an
  exception out.
\<close>

theorem token_storage_round_trip:
  "(t \<noteq> [] \<and> setItem ls TOKEN_STORAGE_KEY t = Inr stored \<longrightarrow>
      setStoredToken (Some t) ls = Inr (stored, 0) \<and> getStoredToken stored = Some t)
   \<and> (removeItem ls TOKEN_STORAGE_KEY = Inr removed \<longrightarrow>
      setStoredToken None ls = Inr (removed, 0) \<and> getStoredToken removed = None)
   \<and> (getItem ls TOKEN_STORAGE_KEY = Inl x \<longrightarrow> getStoredToken ls = None)
   \<and> (t \<noteq> [] \<and> setItem ls TOKEN_STORAGE_KEY t = Inl y \<longrightarrow>
      setStoredToken (Some t) ls = Inr (ls, 1))
   \<and> (removeItem ls TOKEN_STORAGE_KEY = Inl z \<longrightarrow> setStoredToken None ls = Inr (ls, 1))
   \<and> (\<exists>ls' w. setStoredToken token ls = Inr (ls', w))"
  by (auto simp: setStoredToken_def getStoredToken_def getItem_def setItem_def
      removeItem_def split: if_splits)

theorem token_storage_round_trip_witness:
  "(\<exists>ls'. setStoredToken (Some ''jwt'') working_storage = Inr (ls', 0)
       \<and> getStoredToken ls' = Some ''jwt'')
   \<and> (\<exists>ls'. setStoredToken None working_storage = Inr (ls', 0) \<and> getStoredToken ls' = None)
   \<and> getStoredToken (working_storage\<lparr>denied := True\<rparr>) = None
   \<and> setStoredToken (Some ''jwt'') (working_storage\<lparr>quota_exceeded := True\<rparr>)
       = Inr (working_storage\<lparr>quota_exceeded := True\<rparr>, 1)
   \<and> setStoredToken None (working_storage\<lparr>denied := True\<rparr>)
       = Inr (working_storage\<lparr>denied := True\<rparr>, 1)"
proof -
  let ?stored = "working_storage\<lparr>items := (items working_storage)(TOKEN_STORAGE_KEY \<mapsto> ''jwt'')\<rparr>"
  let ?removed = "working_storage\<lparr>items := (items working_storage)(TOKEN_STORAGE_KEY := None)\<rparr>"
  have a: "setItem working_storage TOKEN_STORAGE_KEY ''jwt'' = Inr ?stored"
    by (simp add: setItem_def working_storage_def)
  have b: "removeItem working_storage TOKEN_STORAGE_KEY = Inr ?removed"
    by (simp add: removeItem_def working_storage_def)
  have c: "getItem (working_storage\<lparr>denied := True\<rparr>) TOKEN_STORAGE_KEY = Inl SecurityError"
    by (simp add: getItem_def)
  have d: "setItem (working_storage\<lparr>quota_exceeded := True\<rparr>) TOKEN_STORAGE_KEY ''jwt''
      = Inl QuotaExceededError"
    by (simp add: setItem_def working_storage_def)
  have e: "removeItem (working_storage\<lparr>denied := True\<rparr>) TOKEN_STORAGE_KEY = Inl SecurityError"
    by (simp add: removeItem_def)
  show ?thesis
    using token_storage_round_trip
        [where t = "''jwt''" and ls = working_storage and stored = ?stored and removed = ?removed]
      token_storage_round_trip
        [where t = "''jwt''" and ls = "working_storage\<lparr>denied := True\<rparr>"
           and x = SecurityError and z = SecurityError]
      token_storage_round_trip
        [where t = "''jwt''" and ls = "working_storage\<lparr>quota_exceeded := True\<rparr>"
           and y = QuotaExceededError]
      a b c d e
    by simp
qed

section \<open>The chatbot form: validation of \<open>top_k\<close>\<close>

lemma isInteger_iff: "isInteger n \<longleftrightarrow> (\<exists>k::int. n = Num (of_int k))"
proof (cases n)
  case (Num r)
  have "(of_int \<lfloor>r\<rfloor> = r) \<longleftrightarrow> (\<exists>k::int. r = of_int k)"
  proof
    assume "of_int \<lfloor>r\<rfloor> = r"
    then have "r = of_int \<lfloor>r\<rfloor>" by (rule sym)
    then show "\<exists>k::int. r = of_int k" by (rule exI)
  next
    assume "\<exists>k::int. r = of_int k"
    then obtain k :: int where "r = of_int k" by (rule exE)
    then show "of_int \<lfloor>r\<rfloor> = r" by (simp only: floor_of_int)
  qed
  with Num show ?thesis by (simp only: isInteger.simps jsnumber.inject)
qed simp_all

lemma top_k_checks:
  "number_checks True 1 20 n = [] \<longleftrightarrow> (\<exists>k::int. n = Num (of_int k) \<and> 1 \<le> k \<and> k \<le> 20)"
proof (cases n)
  case (Num r)
  then show ?thesis
    by (auto simp: number_checks_def isInteger_iff)
qed (simp_all add: number_checks_def)

lemma first_message_None: "first_message ms = None \<longleftrightarrow> ms = []"
  by (cases ms) simp_all

text \<open>
  C1. A submission of the chatbot form calls \<^verbatim>\<open>createChatbot\<close> only when its \<open>top_k\<close>
  parses as an integer \<open>k\<close> with \<open>1 \<le> k \<le> 20\<close>. When \<open>top_k\<close> is not such a value, the
  validation fails: \<^verbatim>\<open>createChatbot\<close> is not called, and the field error of \<open>top_k\<close>
  is set.
\<close>

theorem create_only_with_valid_top_k:
  "ChatbotsPage_handleSubmit Number st = (st', call) \<Longrightarrow>
   (call \<noteq> None \<longrightarrow>
      (\<exists>k. parses_as Number (f_top_k (formState st)) k \<and> 1 \<le> k \<and> k \<le> 20
         \<and> map_option in_top_k call = Some (Some (Num (of_int k)))))
   \<and> (\<not> (\<exists>k. parses_as Number (f_top_k (formState st)) k \<and> 1 \<le> k \<and> k \<le> 20) \<longrightarrow>
        call = None \<and> e_top_k (formErrors st') \<noteq> None)"
proof -
  assume submit: "ChatbotsPage_handleSubmit Number st = (st', call)"
  let ?n = "Number (f_top_k (formState st))"
  let ?ok = "\<exists>k. parses_as Number (f_top_k (formState st)) k \<and> 1 \<le> k \<and> k \<le> 20"
  have ok: "?ok \<longleftrightarrow> number_checks True 1 20 ?n = []"
    by (simp add: top_k_checks parses_as_def)
  show ?thesis
  proof (cases "safeParse Number (formState st)")
    case (Inl issues)
    then have top: "fe_top_k issues = number_checks True 1 20 ?n"
      by (auto simp: safeParse_def Let_def split: if_splits)
    from Inl submit have call: "call = None"
      and st': "e_top_k (formErrors st') = first_message (fe_top_k issues)"
      by (auto simp: ChatbotsPage_handleSubmit_def)
    show ?thesis
      using call st' top ok by (simp add: first_message_None)
  next
    case (Inr data)
    then have checks: "number_checks True 1 20 ?n = []" and top: "in_top_k data = Some ?n"
      by (auto simp: safeParse_def Let_def split: if_splits)
    from Inr submit have "map_option in_top_k call = Some (in_top_k data)"
      by (auto simp: ChatbotsPage_handleSubmit_def)
    with top have sent: "map_option in_top_k call = Some (Some ?n)"
      by simp
    from checks ok obtain k where "parses_as Number (f_top_k (formState st)) k" "1 \<le> k" "k \<le> 20"
      by blast
    with sent show ?thesis
      by (auto simp: parses_as_def)
  qed
qed

theorem create_only_with_valid_top_k_witness:
  "(\<exists>k. parses_as Number_sample ''5'' k \<and> 1 \<le> k \<and> k \<le> 20)
   \<and> map_option in_top_k (snd (ChatbotsPage_handleSubmit Number_sample (sample_form ''5'')))
       = Some (Some (Num 5))
   \<and> snd (ChatbotsPage_handleSubmit Number_sample (sample_form ''25'')) = None
   \<and> e_top_k (formErrors (fst (ChatbotsPage_handleSubmit Number_sample (sample_form ''25''))))
       = Some TooBigMessage
   \<and> snd (ChatbotsPage_handleSubmit Number_sample (sample_form ''abc'')) = None
   \<and> e_top_k (formErrors (fst (ChatbotsPage_handleSubmit Number_sample (sample_form ''abc''))))
       = Some InvalidTypeMessage"
proof -
  note defs = ChatbotsPage_handleSubmit_def safeParse_def Let_def Number_sample_def
    sample_form_def string_min_def string_max_optional_def number_checks_def
  have f: "f_top_k (formState (sample_form k)) = k" for k
    by (simp add: sample_form_def)
  have a: "snd (ChatbotsPage_handleSubmit Number_sample (sample_form ''5'')) \<noteq> None"
    by (simp add: defs)
  have a': "map_option in_top_k (snd (ChatbotsPage_handleSubmit Number_sample (sample_form ''5'')))
      = Some (Some (Num 5))"
    by (simp add: defs)
  have b: "\<not> (\<exists>k. parses_as Number_sample ''25'' k \<and> 1 \<le> k \<and> k \<le> 20)"
    by (simp add: parses_as_def Number_sample_def)
  have c: "\<not> (\<exists>k. parses_as Number_sample ''abc'' k \<and> 1 \<le> k \<and> k \<le> 20)"
    by (simp add: parses_as_def Number_sample_def)
  have d: "e_top_k (formErrors (fst (ChatbotsPage_handleSubmit Number_sample (sample_form ''25''))))
      = Some TooBigMessage"
    by (simp add: defs)
  have e: "e_top_k (formErrors (fst (ChatbotsPage_handleSubmit Number_sample (sample_form ''abc''))))
      = Some InvalidTypeMessage"
    by (simp add: defs)
  from create_only_with_valid_top_k [OF surjective_pairing, of Number_sample "sample_form ''5''"] a
  have valid: "\<exists>k. parses_as Number_sample ''5'' k \<and> 1 \<le> k \<and> k \<le> 20"
    unfolding f by blast
  from create_only_with_valid_top_k [OF surjective_pairing, of Number_sample "sample_form ''25''"] b
  have big: "snd (ChatbotsPage_handleSubmit Number_sample (sample_form ''25'')) = None"
    unfolding f by blast
  from create_only_with_valid_top_k [OF surjective_pairing, of Number_sample "sample_form ''abc''"] c
  have nan: "snd (ChatbotsPage_handleSubmit Number_sample (sample_form ''abc'')) = None"
    unfolding f by blast
  from valid a' big d nan e show ?thesis
    by (intro conjI)
qed

section \<open>The document listing: statuses, labels and attributes\<close>

text \<open>
  C2. The status of a document is one of the four states pending, processing, ready and
  failed, which are four different strings at the interface. The label table of the
  document listing has exactly these four keys, and gives them the labels Pending,
  Processing, Ready and Failed; so the status cell of every row of the listing shows the
  label of the document's status, never the raw status. A document is created at upload
  in state pending.
\<close>

theorem document_status_closed:
  "s \<in> {Pending, Processing, Ready, Failed}
   \<and> distinct (map status_string [Pending, Processing, Ready, Failed])
   \<and> dom documentStatusLabels = status_string ` UNIV
   \<and> map (\<lambda>s. documentStatusLabels (status_string s)) [Pending, Processing, Ready, Failed]
       = [Some ''Pending'', Some ''Processing'', Some ''Ready'', Some ''Failed'']
   \<and> row_status (renderDocument document)
       = (case d_status document of
            Pending \<Rightarrow> ''Pending''
          | Processing \<Rightarrow> ''Processing''
          | Ready \<Rightarrow> ''Ready''
          | Failed \<Rightarrow> ''Failed'')
   \<and> row_status (renderDocument document) \<noteq> status_string (d_status document)
   \<and> d_status (uploaded ident file_name mime_type size_bytes now) = Pending"
proof -
  have univ: "(UNIV :: DocumentStatus set) = {Pending, Processing, Ready, Failed}"
    using DocumentStatus.exhaust by auto
  have s: "s \<in> {Pending, Processing, Ready, Failed}"
    by (cases s) simp_all
  have d: "dom documentStatusLabels = status_string ` UNIV"
    unfolding univ by (auto simp: documentStatusLabels_def)
  have t: "map (\<lambda>s. documentStatusLabels (status_string s)) [Pending, Processing, Ready, Failed]
       = [Some ''Pending'', Some ''Processing'', Some ''Ready'', Some ''Failed'']"
    by (simp add: documentStatusLabels_def)
  have l: "row_status (renderDocument document)
       = (case d_status document of
            Pending \<Rightarrow> ''Pending''
          | Processing \<Rightarrow> ''Processing''
          | Ready \<Rightarrow> ''Ready''
          | Failed \<Rightarrow> ''Failed'')
      \<and> row_status (renderDocument document) \<noteq> status_string (d_status document)"
    by (cases "d_status document")
      (simp_all add: renderDocument_def statusLabel_def documentStatusLabels_def)
  have u: "d_status (uploaded ident file_name mime_type size_bytes now) = Pending"
    by (simp add: uploaded_def)
  have distinct_names: "distinct (map status_string [Pending, Processing, Ready, Failed])"
    by simp
  from s distinct_names d t conjunct1 [OF l] conjunct2 [OF l] u show ?thesis
    by (intro conjI)
qed

text \<open>
  C7, as the code has it. A document record at the interface carries exactly the eight
  attributes id, file name, mime type, size, status, error and the two time stamps; the
  error is null or a message. It carries no tenant id.
\<close>

theorem document_attributes:
  "map fst (ChatbotDocument_entries d) =
     [''id'', ''file_name'', ''mime_type'', ''size_bytes'', ''status'', ''error'',
      ''created_at'', ''updated_at'']
   \<and> map_of (ChatbotDocument_entries d) ''error''
       = Some (case d_error d of None \<Rightarrow> JNull | Some e \<Rightarrow> JString e)
   \<and> map_of (ChatbotDocument_entries d) ''status'' = Some (JString (status_string (d_status d)))"
  by (simp add: ChatbotDocument_entries_def)

text \<open>
  C7 as stated fails: the sample document has eight attributes, and neither a
  \<^verbatim>\<open>tenant_id\<close> nor a \<^verbatim>\<open>chatbot_id\<close> is among them.
\<close>

theorem document_has_no_tenant_id:
  "''tenant_id'' \<notin> set (map fst (ChatbotDocument_entries sample_document))
   \<and> ''chatbot_id'' \<notin> set (map fst (ChatbotDocument_entries sample_document))
   \<and> length (ChatbotDocument_entries sample_document) = 8"
  by (simp add: ChatbotDocument_entries_def)

section \<open>The job controller: status and error\<close>

lemma job_step_invariant:
  "job_step e d = Some d' \<Longrightarrow> (d_error d \<noteq> None) = (d_status d = Failed) \<Longrightarrow>
   (d_error d' \<noteq> None) = (d_status d' = Failed)"
  by (cases e) (auto split: if_splits)

lemma job_run_invariant:
  "job_run es d = Some d' \<Longrightarrow> (d_error d \<noteq> None) = (d_status d = Failed) \<Longrightarrow>
   (d_error d' \<noteq> None) = (d_status d' = Failed)"
proof (induction es arbitrary: d)
  case Nil
  then show ?case by simp
next
  case (Cons e es)
  from Cons.prems(1) obtain d1 where s: "job_step e d = Some d1" and r: "job_run es d1 = Some d'"
    by (auto split: option.splits)
  from job_step_invariant [OF s Cons.prems(2)]
  have "(d_error d1 \<noteq> None) = (d_status d1 = Failed)" .
  from Cons.IH [OF r this] show ?case .
qed

text \<open>
  C3. Whatever the job controller did to a document since its upload, the error of the
  record is non-null if and only if its status is failed; so the documents table shows an
  error only in the row of a failed document.
\<close>

theorem error_iff_failed:
  "job_run es (uploaded ident file_name mime_type size_bytes now) = Some d \<Longrightarrow>
   (d_error d \<noteq> None) = (d_status d = Failed)
   \<and> (row_error (renderDocument d) \<noteq> None \<longrightarrow> d_status d = Failed)"
proof -
  assume r: "job_run es (uploaded ident file_name mime_type size_bytes now) = Some d"
  have inv: "(d_error d \<noteq> None) = (d_status d = Failed)"
    by (rule job_run_invariant [OF r]) (simp add: uploaded_def)
  then show ?thesis
    by (auto simp: renderDocument_def split: option.splits)
qed

theorem error_iff_failed_witness:
  "job_run [Claim, Fail ''ExtractionError: unreadable file'']
       (uploaded ''doc-2'' ''a.pdf'' ''application/pdf'' (Num 10) ''t0'')
     = Some \<lparr>d_id = ''doc-2'', d_file_name = ''a.pdf'', d_mime_type = ''application/pdf'',
              d_size_bytes = Num 10, d_status = Failed,
              d_error = Some ''ExtractionError: unreadable file'',
              d_created_at = ''t0'', d_updated_at = ''t0''\<rparr>
   \<and> job_run [Claim, Fail ''ExtractionError: unreadable file'', Resubmit, Claim, Complete]
       (uploaded ''doc-2'' ''a.pdf'' ''application/pdf'' (Num 10) ''t0'')
     = Some \<lparr>d_id = ''doc-2'', d_file_name = ''a.pdf'', d_mime_type = ''application/pdf'',
              d_size_bytes = Num 10, d_status = Ready, d_error = None,
              d_created_at = ''t0'', d_updated_at = ''t0''\<rparr>"
proof -
  have failed: "job_run [Claim, Fail ''ExtractionError: unreadable file'']
       (uploaded ''doc-2'' ''a.pdf'' ''application/pdf'' (Num 10) ''t0'')
     = Some \<lparr>d_id = ''doc-2'', d_file_name = ''a.pdf'', d_mime_type = ''application/pdf'',
              d_size_bytes = Num 10, d_status = Failed,
              d_error = Some ''ExtractionError: unreadable file'',
              d_created_at = ''t0'', d_updated_at = ''t0''\<rparr>"
    by (simp add: uploaded_def)
  have ready: "job_run [Claim, Fail ''ExtractionError: unreadable file'', Resubmit, Claim, Complete]
       (uploaded ''doc-2'' ''a.pdf'' ''application/pdf'' (Num 10) ''t0'')
     = Some \<lparr>d_id = ''doc-2'', d_file_name = ''a.pdf'', d_mime_type = ''application/pdf'',
              d_size_bytes = Num 10, d_status = Ready, d_error = None,
              d_created_at = ''t0'', d_updated_at = ''t0''\<rparr>"
    by (simp add: uploaded_def)
  show ?thesis
    using failed ready error_iff_failed [OF failed] error_iff_failed [OF ready] by simp
qed

section \<open>The chat panel: requests\<close>

lemma handleSubmit_accepted:
  "handleSubmit localId now st = (st1, Some request) \<Longrightarrow>
   inFlight st = None \<and>
   st1 = st\<lparr>messages := messages st @
              [\<lparr>m_id = localId, m_role = User, m_content = trim (inputValue st),
                m_created_at = now, m_pending = Some True\<rparr>],
            inputValue := [], chatError := None, pendingMessageId := Some localId,
            inFlight := Some localId\<rparr>"
  by (auto simp: handleSubmit_def Let_def isPending_def split: if_splits)

lemma filter_fresh:
  "localId \<notin> set (map m_id ms) \<Longrightarrow> filter (\<lambda>message. m_id message \<noteq> localId) ms = ms"
  by (induction ms) auto

text \<open>
  What a submission sends, in any state: a request is issued if and only if the trimmed
  input is not empty and no request is pending; its message is the trimmed input, its
  conversation id is the panel's \<^verbatim>\<open>conversationId\<close>, and \<open>top_k\<close> is not set.
\<close>

lemma handleSubmit_request:
  "snd (handleSubmit localId now st) =
     (if trim (inputValue st) \<noteq> [] \<and> \<not> isPending st
      then Some \<lparr>req_message = trim (inputValue st),
                 req_conversation_id = conversationId st,
                 req_top_k = None\<rparr>
      else None)"
  by (simp add: handleSubmit_def Let_def)

lemma race_run:
  "run race_session (initialState, []) =
    (\<lparr>conversationId = Some ''conv-1'',
      messages = [mapResponseMessage sample_reply],
      contextChunks = [], inputValue = ''again'', chatError = None, pendingMessageId = None,
      inFlight = None\<rparr>,
     [Sent \<lparr>req_message = ''hi'', req_conversation_id = None, req_top_k = None\<rparr>,
      WasReset, Received ''conv-1''])"
  by (simp add: race_session_def initialState_def handleSubmit_def Let_def isPending_def
      trim_def isWhiteSpace_def onSuccess_def handleReset_def sample_response_def)

text \<open>
  C8, where the code departs from it. The user submits \<open>hi\<close>, resets the conversation
  while the request is pending (the reset button is enabled: the log holds the message
  just sent), and the reply to that request arrives after the reset. The reset has started
  a new session, in which nothing has been sent; yet the late reply sets the conversation
  id, and the first request of the new session carries \<open>conv-1\<close>, the id of the
  conversation that was reset, where the claim has it undefined.
\<close>

theorem reset_while_pending_keeps_conversation:
  "snd (run race_session (initialState, []))
     = [Sent \<lparr>req_message = ''hi'', req_conversation_id = None, req_top_k = None\<rparr>,
        WasReset, Received ''conv-1'']
   \<and> messages (fst (run race_session (initialState, []))) = [mapResponseMessage sample_reply]
   \<and> snd (handleSubmit ''local-2'' ''t2'' (fst (run race_session (initialState, []))))
     = Some \<lparr>req_message = ''again'', req_conversation_id = Some ''conv-1'', req_top_k = None\<rparr>"
  by (simp add: race_run handleSubmit_request isPending_def trim_def isWhiteSpace_def)

section \<open>The chat panel: a failed request\<close>

text \<open>
  While a request is pending the events of the user change nothing, but for a reset of a
  non-empty log.
\<close>

lemma user_events_while_pending:
  "inFlight st = Some localId \<Longrightarrow> list_all userEvent es \<Longrightarrow>
   fst (run es (st, seen)) =
     (if ResetClicked \<in> set es \<and> messages st \<noteq> [] then handleReset st else st)"
proof (induction es arbitrary: st seen)
  case Nil
  then show ?case by simp
next
  case (Cons e es)
  from Cons.prems(2) have rest: "list_all userEvent es" and user: "userEvent e"
    by simp_all
  from Cons.prems(1) have pending: "isPending st"
    by (simp add: isPending_def)
  show ?case
  proof (cases "e = ResetClicked \<and> messages st \<noteq> []")
    case True
    then have s: "step e st = (handleReset st, [WasReset])"
      by simp
    have f: "inFlight (handleReset st) = Some localId"
      using Cons.prems(1) by (simp add: handleReset_def)
    have m: "messages (handleReset st) = []"
      by (simp add: handleReset_def)
    from Cons.IH [OF f rest, of "seen @ [WasReset]"] m True s show ?thesis
      by simp
  next
    case False
    with user pending have s: "step e st = (st, [])"
      by (cases e) (auto simp: handleSubmit_def Let_def)
    from False user have "ResetClicked \<in> set (e # es) \<and> messages st \<noteq> []
        \<longleftrightarrow> ResetClicked \<in> set es \<and> messages st \<noteq> []"
      by auto
    with Cons.IH [OF Cons.prems(1) rest, of seen] s show ?thesis
      by simp
  qed
qed

lemma answered_run:
  "run answered_session (initialState, []) =
    (\<lparr>conversationId = Some ''conv-1'',
      messages = [\<lparr>m_id = ''local-1'', m_role = User, m_content = ''hi'', m_created_at = ''t1'',
                   m_pending = Some False\<rparr>,
                  mapResponseMessage sample_reply],
      contextChunks = [sample_chunk (Some ''faq.txt'')], inputValue = ''more'', chatError = None,
      pendingMessageId = None, inFlight = None\<rparr>,
     [Sent \<lparr>req_message = ''hi'', req_conversation_id = None, req_top_k = None\<rparr>,
      Received ''conv-1''])"
  by (simp add: answered_session_def initialState_def handleSubmit_def Let_def isPending_def
      trim_def isWhiteSpace_def onSuccess_def sample_response_def)

text \<open>
  C9, as the code has it. A request fails after an accepted submission whose local id is
  not the id of a message already in the log, the user having done anything meanwhile.
  The error message derived from the failure is stored, and is displayed unless it is the
  empty string; the pending marker is null; the input, emptied at submission, stays
  empty. If the user has not reset the conversation meanwhile, the rest of the state is
  the one before the submission: the same message log, context chunks and conversation
  id. If the user has, the log and the context chunks are empty and the conversation id
  is null.
\<close>

theorem failed_request_rolls_back:
  "handleSubmit localId now st = (st1, Some request) \<Longrightarrow>
   localId \<notin> set (map m_id (messages st)) \<Longrightarrow>
   list_all userEvent es \<Longrightarrow>
   run es (st1, []) = (st2, seen) \<Longrightarrow>
   step (Rejected error) st2 =
     ((if ResetClicked \<in> set es
       then st\<lparr>conversationId := None, messages := [], contextChunks := [], inputValue := [],
               chatError := Some (getErrorMessage error), pendingMessageId := None\<rparr>
       else st\<lparr>inputValue := [], chatError := Some (getErrorMessage error),
               pendingMessageId := None\<rparr>),
      [Refused])
   \<and> renderError (fst (step (Rejected error) st2))
       = (if getErrorMessage error = [] then None else Some (getErrorMessage error))"
proof -
  assume submit: "handleSubmit localId now st = (st1, Some request)"
    and fresh: "localId \<notin> set (map m_id (messages st))"
    and user: "list_all userEvent es"
    and ran: "run es (st1, []) = (st2, seen)"
  note acc = handleSubmit_accepted [OF submit]
  have st1: "st1 = st\<lparr>messages := messages st @
              [\<lparr>m_id = localId, m_role = User, m_content = trim (inputValue st),
                m_created_at = now, m_pending = Some True\<rparr>],
            inputValue := [], chatError := None, pendingMessageId := Some localId,
            inFlight := Some localId\<rparr>"
    using acc by simp
  have idle: "inFlight st = None"
    using acc by simp
  have fl: "inFlight st1 = Some localId" and log: "messages st1 \<noteq> []"
    by (simp_all add: st1)
  from user_events_while_pending [OF fl user, of "[]"] ran log
  have st2: "st2 = (if ResetClicked \<in> set es then handleReset st1 else st1)"
    by simp
  have fl2: "inFlight st2 = Some localId"
    using fl by (simp add: st2 handleReset_def)
  have settled: "step (Rejected error) st2 = (onError localId error (st2\<lparr>inFlight := None\<rparr>), [Refused])"
    using fl2 by simp
  have kept: "onError localId error (st1\<lparr>inFlight := None\<rparr>) =
     st\<lparr>inputValue := [], chatError := Some (getErrorMessage error), pendingMessageId := None\<rparr>"
    using idle filter_fresh [OF fresh] by (simp add: st1 onError_def)
  have reset: "onError localId error ((handleReset st1)\<lparr>inFlight := None\<rparr>) =
     st\<lparr>conversationId := None, messages := [], contextChunks := [], inputValue := [],
        chatError := Some (getErrorMessage error), pendingMessageId := None\<rparr>"
    using idle by (simp add: st1 onError_def handleReset_def)
  have state: "onError localId error (st2\<lparr>inFlight := None\<rparr>) =
     (if ResetClicked \<in> set es
      then st\<lparr>conversationId := None, messages := [], contextChunks := [], inputValue := [],
              chatError := Some (getErrorMessage error), pendingMessageId := None\<rparr>
      else st\<lparr>inputValue := [], chatError := Some (getErrorMessage error),
              pendingMessageId := None\<rparr>)"
    using kept reset by (simp add: st2)
  have shown: "renderError (onError localId error (st2\<lparr>inFlight := None\<rparr>))
       = (if getErrorMessage error = [] then None else Some (getErrorMessage error))"
    by (simp add: renderError_def onError_def)
  from settled state shown show ?thesis
    by simp
qed

theorem failed_request_rolls_back_witness:
  "map m_id (messages answered_state) = [''local-1'', ''msg-assistant'']
   \<and> contextChunks answered_state = [sample_chunk (Some ''faq.txt'')]
   \<and> fst (step (Rejected (AxiosError (Some ''Service unavailable'') ''Request failed''))
        (fst (run [Typed ''ignored''] (resubmitted_state, []))))
     = answered_state\<lparr>inputValue := [], chatError := Some ''Service unavailable''\<rparr>
   \<and> renderError (fst (step (Rejected (AxiosError (Some ''Service unavailable'') ''Request failed''))
        (fst (run [Typed ''ignored''] (resubmitted_state, [])))))
     = Some ''Service unavailable''
   \<and> messages (fst (step (Rejected (Error []))
        (fst (run [ResetClicked] (resubmitted_state, []))))) = []
   \<and> conversationId (fst (step (Rejected (Error []))
        (fst (run [ResetClicked] (resubmitted_state, []))))) = None
   \<and> renderError (fst (step (Rejected (Error []))
        (fst (run [ResetClicked] (resubmitted_state, []))))) = None"
proof -
  have val: "answered_state =
    \<lparr>conversationId = Some ''conv-1'',
      messages = [\<lparr>m_id = ''local-1'', m_role = User, m_content = ''hi'', m_created_at = ''t1'',
                   m_pending = Some False\<rparr>,
                  mapResponseMessage sample_reply],
      contextChunks = [sample_chunk (Some ''faq.txt'')], inputValue = ''more'', chatError = None,
      pendingMessageId = None, inFlight = None\<rparr>"
    by (simp add: answered_state_def answered_run)
  have s: "handleSubmit ''local-2'' ''t2'' answered_state =
     (resubmitted_state,
      Some \<lparr>req_message = ''more'', req_conversation_id = Some ''conv-1'', req_top_k = None\<rparr>)"
    by (simp add: resubmitted_state_def val handleSubmit_def Let_def isPending_def trim_def
        isWhiteSpace_def)
  have ids: "map m_id (messages answered_state) = [''local-1'', ''msg-assistant'']"
    by (simp add: val mapResponseMessage_def sample_reply_def)
  have f: "''local-2'' \<notin> set (map m_id (messages answered_state))"
    by (simp add: ids)
  have ctx: "contextChunks answered_state = [sample_chunk (Some ''faq.txt'')]"
    by (simp add: val)
  have u1: "list_all userEvent [Typed ''ignored'']" and u2: "list_all userEvent [ResetClicked]"
    by simp_all
  note kept = failed_request_rolls_back
    [where es = "[Typed ''ignored'']"
       and error = "AxiosError (Some ''Service unavailable'') ''Request failed''",
     OF s f u1 surjective_pairing]
  note reset = failed_request_rolls_back
    [where es = "[ResetClicked]" and error = "Error []", OF s f u2 surjective_pairing]
  have k1: "fst (step (Rejected (AxiosError (Some ''Service unavailable'') ''Request failed''))
        (fst (run [Typed ''ignored''] (resubmitted_state, []))))
     = answered_state\<lparr>inputValue := [], chatError := Some ''Service unavailable''\<rparr>"
    using conjunct1 [OF kept] by (simp add: val del: run.simps step.simps)
  have k2: "renderError (fst (step (Rejected (AxiosError (Some ''Service unavailable'') ''Request failed''))
        (fst (run [Typed ''ignored''] (resubmitted_state, [])))))
     = Some ''Service unavailable''"
    using conjunct2 [OF kept] by (simp del: run.simps step.simps)
  have r1: "fst (step (Rejected (Error [])) (fst (run [ResetClicked] (resubmitted_state, []))))
     = answered_state\<lparr>conversationId := None, messages := [], contextChunks := [],
         inputValue := [], chatError := Some [], pendingMessageId := None\<rparr>"
    using conjunct1 [OF reset] by (simp del: run.simps step.simps)
  have r2: "renderError (fst (step (Rejected (Error []))
        (fst (run [ResetClicked] (resubmitted_state, []))))) = None"
    using conjunct2 [OF reset] by (simp del: run.simps step.simps)
  from ids ctx k1 k2 r2 show ?thesis
    by (simp add: r1 del: run.simps step.simps)
qed

text \<open>
  C9 as stated fails: the state after a failed request is not the state before the
  submission with only the error display changed. The input held \<open>hi\<close> before the
  submission and is empty after the failure.
\<close>

theorem failed_request_clears_input:
  "inputValue typed_hi = ''hi''
   \<and> snd (handleSubmit ''local-1'' ''t1'' typed_hi) \<noteq> None
   \<and> inputValue (fst (step (Rejected (Error ''Network Error''))
        (fst (handleSubmit ''local-1'' ''t1'' typed_hi)))) = []
   \<and> fst (step (Rejected (Error ''Network Error'')) (fst (handleSubmit ''local-1'' ''t1'' typed_hi)))
       \<noteq> typed_hi\<lparr>chatError := Some ''Network Error''\<rparr>"
  by (simp add: handleSubmit_def typed_hi_def initialState_def Let_def isPending_def
      trim_def isWhiteSpace_def onError_def)

section \<open>Retrieval with nothing to retrieve\<close>

lemma tenant_index_no_ready: "ready_documents docs = [] \<Longrightarrow> tenant_index docs embs = []"
  by (simp add: tenant_index_def)

lemma query_empty: "query [] q k = []"
  by (simp add: query_def scored_def)

lemma step_pending_no_error:
  "step e st = (st', out) \<Longrightarrow> (isPending st \<longrightarrow> chatError st = None) \<Longrightarrow>
   (isPending st' \<longrightarrow> chatError st' = None)"
  by (cases e)
    (auto simp: handleSubmit_def Let_def onSuccess_def onError_def handleReset_def isPending_def
      split: if_splits option.splits prod.splits)

lemma run_pending_no_error:
  "run es (st0, seen0) = (st, seen) \<Longrightarrow> (isPending st0 \<longrightarrow> chatError st0 = None) \<Longrightarrow>
   (isPending st \<longrightarrow> chatError st = None)"
proof (induction es arbitrary: st0 seen0)
  case Nil
  then show ?case by simp
next
  case (Cons e es)
  obtain st1 out where s: "step e st0 = (st1, out)"
    by (cases "step e st0")
  with Cons.prems(1) have r: "run es (st1, seen0 @ out) = (st, seen)"
    by simp
  from step_pending_no_error [OF s Cons.prems(2)]
  have "isPending st1 \<longrightarrow> chatError st1 = None" .
  from Cons.IH [OF r this] show ?case .
qed

lemma pending_run:
  "run pending_session (initialState, []) =
     (\<lparr>conversationId = None,
       messages = [\<lparr>m_id = ''local-1'', m_role = User, m_content = ''hi'', m_created_at = ''t1'',
                    m_pending = Some True\<rparr>],
       contextChunks = [], inputValue = [], chatError = None,
       pendingMessageId = Some ''local-1'', inFlight = Some ''local-1''\<rparr>,
      [Sent \<lparr>req_message = ''hi'', req_conversation_id = None, req_top_k = None\<rparr>])"
  by (simp add: pending_session_def initialState_def handleSubmit_def Let_def isPending_def
      trim_def isWhiteSpace_def)

text \<open>
  C5. For a tenant with no ready document, retrieval returns the empty list and not an
  error (the embedding client having returned the query vector). In any state the panel
  can reach with a request pending, a response whose context is empty is a success: the
  panel shows the assistant's reply as the last message, shows no retrieved-context
  section, has no error message and is no longer pending.
\<close>

theorem empty_retrieval_is_not_an_error:
  "embedClient [queryText] = Inr [v] \<Longrightarrow>
   ready_documents docs = [] \<Longrightarrow>
   run es (initialState, []) = (st, seen) \<Longrightarrow>
   isPending st \<Longrightarrow>
   resp_context response = [] \<Longrightarrow>
   retrieve embedClient resolve default_k (docs, embs) queryText k = Inr []
   \<and> renderContext (fst (step (Resolved response) st)) = None
   \<and> chatError (fst (step (Resolved response) st)) = None
   \<and> renderError (fst (step (Resolved response) st)) = None
   \<and> last (renderMessages chatbotName (fst (step (Resolved response) st)))
       = renderMessage chatbotName (mapResponseMessage (resp_reply response))
   \<and> \<not> isPending (fst (step (Resolved response) st))"
proof -
  assume e: "embedClient [queryText] = Inr [v]"
    and none: "ready_documents docs = []"
    and reach: "run es (initialState, []) = (st, seen)"
    and pending: "isPending st"
    and empty: "resp_context response = []"
  have r: "retrieve embedClient resolve default_k (docs, embs) queryText k = Inr []"
    by (simp add: retrieve_def e tenant_index_no_ready [OF none] query_empty)
  from pending obtain localId where fl: "inFlight st = Some localId"
    by (auto simp: isPending_def)
  have err: "chatError st = None"
    using run_pending_no_error [OF reach] pending by (simp add: initialState_def isPending_def)
  have s: "fst (step (Resolved response) st) = onSuccess localId response (st\<lparr>inFlight := None\<rparr>)"
    using fl by simp
  show ?thesis
    unfolding s using r err empty
    by (simp add: onSuccess_def renderContext_def renderError_def renderMessages_def isPending_def)
qed

theorem empty_retrieval_is_not_an_error_witness:
  "retrieve embed_unit resolve_sample 4 ([sample_document\<lparr>d_status := Processing\<rparr>], []) ''hello'' None
     = Inr []
   \<and> renderContext (fst (step (Resolved (sample_response []))
        (fst (run pending_session (initialState, []))))) = None
   \<and> renderError (fst (step (Resolved (sample_response []))
        (fst (run pending_session (initialState, []))))) = None
   \<and> map art_text (renderMessages ''Helper'' (fst (step (Resolved (sample_response []))
        (fst (run pending_session (initialState, [])))))) = [''hi'', ''Hello! How can I help?'']"
proof -
  have e: "embed_unit [''hello''] = Inr [[1, 0]]"
    by (simp add: embed_unit_def)
  have n: "ready_documents [sample_document\<lparr>d_status := Processing\<rparr>] = []"
    by (simp add: ready_documents_def)
  have c: "resp_context (sample_response []) = []"
    by (simp add: sample_response_def)
  have p: "isPending (fst (run pending_session (initialState, [])))"
    by (simp add: pending_run isPending_def)
  have m: "map art_text (renderMessages ''Helper'' (fst (step (Resolved (sample_response []))
        (fst (run pending_session (initialState, [])))))) = [''hi'', ''Hello! How can I help?'']"
    by (simp add: pending_run onSuccess_def renderMessages_def renderMessage_def
        sample_response_def sample_reply_def mapResponseMessage_def)
  show ?thesis
    using empty_retrieval_is_not_an_error
      [where embedClient = embed_unit and queryText = "''hello''" and resolve = resolve_sample
         and default_k = 4 and embs = "[]" and k = None and chatbotName = "''Helper''"
         and es = pending_session,
       OF e n surjective_pairing p c] m
    by simp
qed

section \<open>The context chunks the retrieval engine returns\<close>

lemma find_by_key:
  "distinct (map f xs) \<Longrightarrow> x \<in> set xs \<Longrightarrow> find (\<lambda>y. f y = f x) xs = Some x"
  by (induction xs) auto

lemma find_present:
  "x \<in> set xs \<Longrightarrow> P x \<Longrightarrow> \<exists>y \<in> set xs. find P xs = Some y \<and> P y"
  by (induction xs) auto

lemma query_subset: "set (query idx q k) \<subseteq> set (scored idx q)"
proof -
  have "set (query idx q k) \<subseteq> set (sort_key rank_key (scored idx q))"
    unfolding query_def by (rule set_take_subset)
  then show ?thesis by simp
qed

lemma query_ids:
  assumes "(c, s) \<in> set (query idx q k)"
  shows "c \<in> fst ` set idx \<and> (\<exists>v. s = cosine q v)"
proof -
  from assms query_subset [of idx q k] have "(c, s) \<in> set (scored idx q)"
    by blast
  then obtain v where "(c, v) \<in> set idx" "s = cosine q v"
    by (auto simp: scored_def)
  then show ?thesis
    by force
qed

lemma tenant_index_ids:
  "c \<in> fst ` set (tenant_index docs embs) \<Longrightarrow>
   \<exists>e \<in> set embs. em_chunk e = c \<and> em_document e \<in> d_id ` set (ready_documents docs)"
  by (auto simp: tenant_index_def)

lemma resolve_join_owned:
  assumes ok: "persisted_ok chunks embs"
    and e: "e \<in> set embs"
    and ready: "em_document e \<in> d_id ` set (ready_documents docs)"
  shows "\<exists>ch \<in> set chunks. \<exists>d \<in> set docs.
           ch_id ch = em_chunk e \<and> ch_document ch = d_id d \<and>
           resolve_join chunks docs ident (em_chunk e) s =
             \<lparr>c_id = ident (ch_id ch), c_document_id = d_id d,
              c_document_name = Some (d_file_name d), c_score = Num s, c_content = ch_text ch\<rparr>"
proof -
  from ok e obtain ch where ch: "ch \<in> set chunks" "ch_id ch = em_chunk e"
      "ch_document ch = em_document e"
    by (auto simp: persisted_ok_def)
  from ok have "distinct (map ch_id chunks)"
    by (simp add: persisted_ok_def)
  from find_by_key [OF this ch(1)] ch(2)
  have found: "find (\<lambda>y. ch_id y = em_chunk e) chunks = Some ch"
    by simp
  from ready obtain d0 where "d0 \<in> set docs" "d_id d0 = ch_document ch"
    using ch(3) by (auto simp: ready_documents_def)
  from find_present [of d0 docs "\<lambda>d. d_id d = ch_document ch", OF this]
  obtain d where d: "d \<in> set docs" "find (\<lambda>d. d_id d = ch_document ch) docs = Some d"
      "d_id d = ch_document ch"
    by auto
  have "ch_id ch = em_chunk e \<and> ch_document ch = d_id d \<and>
      resolve_join chunks docs ident (em_chunk e) s =
      \<lparr>c_id = ident (ch_id ch), c_document_id = d_id d,
       c_document_name = Some (d_file_name d), c_score = Num s, c_content = ch_text ch\<rparr>"
    by (simp add: resolve_join_def found d ch(2))
  with ch(1) d(1) show ?thesis
    by blast
qed

lemma sample_tenant_index:
  "tenant_index sample_documents sample_embeddings = [(1, [3, 4]), (2, [1, 0])]"
  by (simp add: tenant_index_def ready_documents_def sample_documents_def
      sample_embeddings_def sample_document_def)

lemma sample_tenant_query:
  "query (tenant_index sample_documents sample_embeddings) [1, 0] k
     = take k [(2, 1), (1, 3 / 5)]"
  by (simp add: sample_tenant_index query_def rank_key_def scored_def cosine_def
      less_eq_prod_def)

lemma sample_persisted_ok: "persisted_ok sample_chunks sample_embeddings"
  by (simp add: persisted_ok_def sample_chunks_def sample_embeddings_def)

text \<open>
  C6. The persisted records being consistent and the embedding client having returned the
  query vector, retrieval returns one context chunk per pair of the index query, in its
  order. Every chunk returned carries the id and the text of a persisted chunk, the id
  and the name of the document that owns that chunk, and a score, which is the cosine
  score of the query; its document name is never null, and it is the name the panel
  shows for the chunk.
\<close>

theorem context_chunks_resolved:
  "embedClient [queryText] = Inr [v] \<Longrightarrow>
   persisted_ok chunks embs \<Longrightarrow>
   (\<exists>ctx. retrieve embedClient (resolve_join chunks docs ident) default_k (docs, embs) queryText k
            = Inr ctx
      \<and> map c_id ctx
          = map (\<lambda>(c, s). ident c)
              (query (tenant_index docs embs) v
                 (min MAX_TOP_K (case k of None \<Rightarrow> default_k | Some n \<Rightarrow> n)))
      \<and> map c_score ctx
          = map (\<lambda>(c, s). Num s)
              (query (tenant_index docs embs) v
                 (min MAX_TOP_K (case k of None \<Rightarrow> default_k | Some n \<Rightarrow> n)))
      \<and> (\<forall>x \<in> set ctx. \<exists>ch \<in> set chunks. \<exists>d \<in> set docs.
            c_id x = ident (ch_id ch) \<and> c_content x = ch_text ch \<and>
            ch_document ch = d_id d \<and> c_document_id x = d_id d \<and>
            c_document_name x = Some (d_file_name d) \<and>
            item_source (renderChunk x) = d_file_name d \<and>
            (\<exists>u. c_score x = Num (cosine v u))))"
proof -
  assume e: "embedClient [queryText] = Inr [v]"
    and ok: "persisted_ok chunks embs"
  let ?Q = "query (tenant_index docs embs) v
      (min MAX_TOP_K (case k of None \<Rightarrow> default_k | Some n \<Rightarrow> n))"
  let ?ctx = "map (\<lambda>(c, s). resolve_join chunks docs ident c s) ?Q"
  have r: "retrieve embedClient (resolve_join chunks docs ident) default_k (docs, embs) queryText k
      = Inr ?ctx"
    by (simp add: retrieve_def e)
  have ids: "map c_id ?ctx = map (\<lambda>(c, s). ident c) ?Q"
    by (simp add: resolve_join_def case_prod_unfold split: option.splits)
  have scores: "map c_score ?ctx = map (\<lambda>(c, s). Num s) ?Q"
    by (simp add: resolve_join_def case_prod_unfold split: option.splits)
  have each: "\<forall>x \<in> set ?ctx. \<exists>ch \<in> set chunks. \<exists>d \<in> set docs.
            c_id x = ident (ch_id ch) \<and> c_content x = ch_text ch \<and>
            ch_document ch = d_id d \<and> c_document_id x = d_id d \<and>
            c_document_name x = Some (d_file_name d) \<and>
            item_source (renderChunk x) = d_file_name d \<and>
            (\<exists>u. c_score x = Num (cosine v u))"
  proof
    fix x assume "x \<in> set ?ctx"
    then obtain c s where cs: "(c, s) \<in> set ?Q" and x: "x = resolve_join chunks docs ident c s"
      by auto
    from query_ids [OF cs] obtain u where c: "c \<in> fst ` set (tenant_index docs embs)"
      and s: "s = cosine v u"
      by auto
    from tenant_index_ids [OF c] obtain em where em: "em \<in> set embs" "em_chunk em = c"
      "em_document em \<in> d_id ` set (ready_documents docs)"
      by auto
    from resolve_join_owned [OF ok em(1) em(3), of ident s] em(2) x
    obtain ch d where "ch \<in> set chunks" "d \<in> set docs" "ch_document ch = d_id d"
      and val: "x = \<lparr>c_id = ident (ch_id ch), c_document_id = d_id d,
              c_document_name = Some (d_file_name d), c_score = Num s, c_content = ch_text ch\<rparr>"
      by auto
    then show "\<exists>ch \<in> set chunks. \<exists>d \<in> set docs.
            c_id x = ident (ch_id ch) \<and> c_content x = ch_text ch \<and>
            ch_document ch = d_id d \<and> c_document_id x = d_id d \<and>
            c_document_name x = Some (d_file_name d) \<and>
            item_source (renderChunk x) = d_file_name d \<and>
            (\<exists>u. c_score x = Num (cosine v u))"
      using s by (auto simp: renderChunk_def)
  qed
  from r ids scores each show ?thesis
    by blast
qed

theorem context_chunks_resolved_witness:
  "persisted_ok sample_chunks sample_embeddings
   \<and> retrieve embed_unit (resolve_join sample_chunks sample_documents sample_ident) 4
        (sample_documents, sample_embeddings) ''How do I reset my password?'' None
     = Inr [\<lparr>c_id = ''chunk-2'', c_document_id = ''doc-1'', c_document_name = Some ''faq.txt'',
              c_score = Num 1, c_content = ''Reset your password.''\<rparr>,
            \<lparr>c_id = ''chunk-1'', c_document_id = ''doc-1'', c_document_name = Some ''faq.txt'',
              c_score = Num (3 / 5), c_content = ''Open the profile page.''\<rparr>]"
proof -
  have e: "embed_unit [''How do I reset my password?''] = Inr [[1, 0]]"
    by (simp add: embed_unit_def)
  have q: "query (tenant_index sample_documents sample_embeddings) [1, 0] (min MAX_TOP_K 4)
      = [(2, 1), (1, 3 / 5)]"
    by (simp add: sample_tenant_query MAX_TOP_K_def)
  have r: "retrieve embed_unit (resolve_join sample_chunks sample_documents sample_ident) 4
        (sample_documents, sample_embeddings) ''How do I reset my password?'' None
     = Inr [\<lparr>c_id = ''chunk-2'', c_document_id = ''doc-1'', c_document_name = Some ''faq.txt'',
              c_score = Num 1, c_content = ''Reset your password.''\<rparr>,
            \<lparr>c_id = ''chunk-1'', c_document_id = ''doc-1'', c_document_name = Some ''faq.txt'',
              c_score = Num (3 / 5), c_content = ''Open the profile page.''\<rparr>]"
    by (simp only: retrieve_def e sum.case list.case fst_conv snd_conv option.case q)
      (simp add: resolve_join_def sample_chunks_def sample_documents_def sample_document_def
        sample_ident_def)
  show ?thesis
    using context_chunks_resolved
      [where embedClient = embed_unit and queryText = "''How do I reset my password?''"
         and chunks = sample_chunks and embs = sample_embeddings and docs = sample_documents
         and ident = sample_ident and default_k = 4 and k = None,
       OF e sample_persisted_ok]
      sample_persisted_ok r
    by simp
qed

section \<open>The order of query results\<close>

lemma scored_ids: "map fst (scored idx q) = map fst idx"
  by (simp add: scored_def case_prod_unfold)

lemma rank_key_less:
  "rank_key a < rank_key b \<Longrightarrow> snd a > snd b \<or> (snd a = snd b \<and> fst a < fst b)"
  by (cases a, cases b) (auto simp: rank_key_def less_prod_def)

lemma distinct_rank_keys:
  assumes "distinct (map fst xs)"
  shows "distinct (map rank_key xs)"
proof -
  from assms have d: "distinct xs" and i: "inj_on fst (set xs)"
    by (simp_all add: distinct_map)
  have "inj_on rank_key (set xs)"
  proof (rule inj_onI)
    fix a b assume "a \<in> set xs" "b \<in> set xs" and k: "rank_key a = rank_key b"
    from k show "a = b"
      by (simp add: rank_key_def case_prod_unfold prod_eq_iff)
  qed
  with d show ?thesis by (simp add: distinct_map)
qed

lemma sorted_ranked:
  assumes "index_ok idx"
  shows "sorted_wrt (\<lambda>a b. snd a > snd b \<or> (snd a = snd b \<and> fst a < fst b))
           (sort_key rank_key (scored idx q))"
proof -
  let ?L = "sort_key rank_key (scored idx q)"
  have "distinct (map fst (scored idx q))"
    using assms by (simp add: scored_ids index_ok_def)
  then have "distinct (map rank_key (scored idx q))"
    by (rule distinct_rank_keys)
  then have "distinct (map rank_key ?L)"
    by (simp add: distinct_map)
  moreover have "sorted (map rank_key ?L)"
    by (rule sorted_sort_key)
  ultimately have "sorted_wrt (<) (map rank_key ?L)"
    by (simp add: strict_sorted_iff)
  then have "sorted_wrt (\<lambda>a b. rank_key a < rank_key b) ?L"
    by (simp add: sorted_wrt_map)
  then show ?thesis
    by (rule sorted_wrt_mono_rel [rotated]) (rule rank_key_less)
qed

lemma query_ranked: "index_ok idx \<Longrightarrow> ranked (query idx q k)"
  unfolding ranked_def query_def by (rule sorted_wrt_take) (rule sorted_ranked)

lemma ranked_descending:
  assumes "ranked rs"
  shows "sorted_wrt (\<lambda>a b. snd a \<ge> snd b) rs"
proof (rule sorted_wrt_mono_rel)
  show "sorted_wrt (\<lambda>a b. snd a > snd b \<or> (snd a = snd b \<and> fst a < fst b)) rs"
    using assms by (simp add: ranked_def)
next
  fix a b :: "nat \<times> real"
  assume "snd a > snd b \<or> (snd a = snd b \<and> fst a < fst b)"
  then show "snd a \<ge> snd b" by auto
qed

text \<open>Where no two results have the same score, the order is strict in the score alone.\<close>

lemma ranked_strict:
  assumes "ranked rs" and "distinct (map snd rs)"
  shows "strictly_descending_by_score rs"
  unfolding strictly_descending_by_score_def
proof (rule sorted_wrt_mono_rel)
  show "sorted_wrt (\<lambda>a b. snd a > snd b \<or> (snd a = snd b \<and> fst a < fst b)) rs"
    using assms(1) by (simp add: ranked_def)
next
  fix a b :: "nat \<times> real"
  assume a: "a \<in> set rs" and b: "b \<in> set rs"
    and r: "snd a > snd b \<or> (snd a = snd b \<and> fst a < fst b)"
  from assms(2) have "inj_on snd (set rs)"
    by (simp add: distinct_map)
  with a b have "snd a = snd b \<Longrightarrow> a = b"
    by (auto dest: inj_onD)
  with r show "snd a > snd b"
    by auto
qed

lemma query_top:
  assumes ok: "index_ok idx" and ne: "idx \<noteq> []"
  shows "\<exists>c s. query idx q 1 = [(c, s)] \<and> (c, s) \<in> set (scored idx q) \<and>
           (\<forall>(c', s') \<in> set (scored idx q). s' < s \<or> (s' = s \<and> c \<le> c'))"
proof -
  let ?L = "sort_key rank_key (scored idx q)"
  from ne have "?L \<noteq> []"
    by (metis length_sort length_0_conv scored_def map_is_Nil_conv)
  then obtain x xs where L: "?L = x # xs"
    by (cases ?L) auto
  have set: "set (scored idx q) = insert x (set xs)"
    using L by (metis set_sort list.simps(15))
  from sorted_ranked [OF ok, of q] L
  have rest: "\<forall>y \<in> set xs. snd x > snd y \<or> (snd x = snd y \<and> fst x < fst y)"
    by simp
  have "query idx q 1 = [x]"
    by (simp add: query_def L)
  moreover have "x \<in> set (scored idx q)"
    by (simp add: set)
  moreover have "\<forall>(c', s') \<in> set (scored idx q). s' < snd x \<or> (s' = snd x \<and> fst x \<le> c')"
    using rest by (auto simp: set)
  ultimately show ?thesis
    by (cases x) auto
qed

text \<open>
  One vector per chunk id: so is the empty index, so both operations keep an index, and so
  is the index of a tenant whose embeddings are one to a chunk.
\<close>

lemma empty_index_ok: "index_ok []"
  by (simp add: index_ok_def)

lemma add_keeps_index_ok: "index_ok idx \<Longrightarrow> index_ok (add chunkId v idx)"
  by (auto simp: index_ok_def add_def distinct_map_filter)

lemma removeByDocument_keeps_index_ok:
  "index_ok idx \<Longrightarrow> index_ok (removeByDocument owner documentId idx)"
  by (simp add: index_ok_def removeByDocument_def distinct_map_filter)

lemma tenant_index_ok:
  "distinct (map em_chunk embs) \<Longrightarrow> index_ok (tenant_index docs embs)"
  by (simp add: index_ok_def tenant_index_def comp_def distinct_map_filter)

lemma tied_query: "query tied_index [1, 0] 2 = [(1, 1), (2, 1)]"
  by (simp add: tied_index_def query_def rank_key_def add_def scored_def cosine_def
      less_eq_prod_def)

text \<open>
  C4. On an index with one vector per chunk id, as the empty index is, as \<open>add\<close> and
  \<open>removeByDocument\<close> keep it, and as the index of a tenant is whose embeddings are one
  to a chunk, a query returns at most \<open>k\<close> pairs in descending order of score with equal
  scores in ascending order of chunk id: the scores never increase along the list, and
  they strictly decrease wherever no two results tie. For \<open>k = 1\<close> on a non-empty index the
  pair returned is an indexed chunk of the highest score, the one of the smallest id among
  those. When the context of a response is the resolved result of the query, the panel
  shows the items in that order.
\<close>

theorem query_is_ranked:
  "index_ok idx \<Longrightarrow>
   resp_context response = map (\<lambda>(c, s). resolve c s) (query idx q k) \<Longrightarrow>
   length (query idx q k) \<le> k
   \<and> ranked (query idx q k)
   \<and> sorted_wrt (\<lambda>a b. snd a \<ge> snd b) (query idx q k)
   \<and> (distinct (map snd (query idx q k)) \<longrightarrow> strictly_descending_by_score (query idx q k))
   \<and> (idx \<noteq> [] \<longrightarrow>
        (\<exists>c s. query idx q 1 = [(c, s)] \<and> (c, s) \<in> set (scored idx q) \<and>
           (\<forall>(c', s') \<in> set (scored idx q). s' < s \<or> (s' = s \<and> c \<le> c'))))
   \<and> delivered (onSuccess localId response st)
       = map (\<lambda>(c, s). renderChunk (resolve c s)) (query idx q k)
   \<and> index_ok [] \<and> index_ok (add chunkId vec idx)
   \<and> index_ok (removeByDocument owner documentId idx)
   \<and> (distinct (map em_chunk embs) \<longrightarrow> index_ok (tenant_index docs embs))"
proof -
  assume ok: "index_ok idx"
    and ctx: "resp_context response = map (\<lambda>(c, s). resolve c s) (query idx q k)"
  have len: "length (query idx q k) \<le> k"
    by (simp add: query_def)
  have rk: "ranked (query idx q k)"
    by (rule query_ranked [OF ok])
  have desc: "sorted_wrt (\<lambda>a b. snd a \<ge> snd b) (query idx q k)"
    by (rule ranked_descending [OF rk])
  have strict: "distinct (map snd (query idx q k)) \<longrightarrow>
      strictly_descending_by_score (query idx q k)"
    using ranked_strict [OF rk] by blast
  have top: "idx \<noteq> [] \<longrightarrow>
        (\<exists>c s. query idx q 1 = [(c, s)] \<and> (c, s) \<in> set (scored idx q) \<and>
           (\<forall>(c', s') \<in> set (scored idx q). s' < s \<or> (s' = s \<and> c \<le> c')))"
    using query_top [OF ok] by blast
  have shown: "delivered (onSuccess localId response st)
       = map (\<lambda>(c, s). renderChunk (resolve c s)) (query idx q k)"
    by (simp add: delivered_def renderContext_def onSuccess_def ctx case_prod_unfold)
  have closed: "index_ok [] \<and> index_ok (add chunkId vec idx)
      \<and> index_ok (removeByDocument owner documentId idx)
      \<and> (distinct (map em_chunk embs) \<longrightarrow> index_ok (tenant_index docs embs))"
    using empty_index_ok add_keeps_index_ok [OF ok] removeByDocument_keeps_index_ok [OF ok]
      tenant_index_ok by blast
  from len rk desc strict top shown closed show ?thesis
    by (intro conjI) blast+
qed

theorem query_is_ranked_witness:
  "index_ok (tenant_index sample_documents sample_embeddings)
   \<and> query (tenant_index sample_documents sample_embeddings) [1, 0] 2 = [(2, 1), (1, 3 / 5)]
   \<and> strictly_descending_by_score (query (tenant_index sample_documents sample_embeddings) [1, 0] 2)
   \<and> query (tenant_index sample_documents sample_embeddings) [1, 0] 1 = [(2, 1)]
   \<and> map item_key (delivered (onSuccess ''local-1''
        (sample_response (map (\<lambda>(c, s). resolve_sample c s)
           (query (tenant_index sample_documents sample_embeddings) [1, 0] 2)))
        initialState)) = [''chunk-2'', ''chunk-1'']
   \<and> index_ok tied_index
   \<and> query tied_index [1, 0] 2 = [(1, 1), (2, 1)]
   \<and> ranked (query tied_index [1, 0] 2)"
proof -
  let ?idx = "tenant_index sample_documents sample_embeddings"
  have ok: "index_ok ?idx"
    by (rule tenant_index_ok) (simp add: sample_embeddings_def)
  have tied: "index_ok tied_index"
    unfolding tied_index_def by (intro add_keeps_index_ok empty_index_ok)
  have ctx: "resp_context (sample_response (map (\<lambda>(c, s). resolve_sample c s) (query ?idx [1, 0] 2)))
     = map (\<lambda>(c, s). resolve_sample c s) (query ?idx [1, 0] 2)"
    by (simp add: sample_response_def)
  have none: "resp_context (sample_response []) = map (\<lambda>(c, s). resolve_sample c s) []"
    by (simp add: sample_response_def)
  have ctx2: "resp_context (sample_response (map (\<lambda>(c, s). resolve_sample c s) (query tied_index [1, 0] 2)))
     = map (\<lambda>(c, s). resolve_sample c s) (query tied_index [1, 0] 2)"
    by (simp add: sample_response_def)
  have q2: "query ?idx [1, 0] 2 = [(2, 1), (1, 3 / 5)]" and q1: "query ?idx [1, 0] 1 = [(2, 1)]"
    by (simp_all add: sample_tenant_query)
  note first = query_is_ranked [OF ok ctx, of "''local-1''" initialState]
  note second = query_is_ranked [OF tied ctx2, of "''local-1''" initialState]
  have strict: "strictly_descending_by_score (query ?idx [1, 0] 2)"
    using first by (simp add: q2)
  have shown: "map item_key (delivered (onSuccess ''local-1''
        (sample_response (map (\<lambda>(c, s). resolve_sample c s) (query ?idx [1, 0] 2)))
        initialState)) = [''chunk-2'', ''chunk-1'']"
    using first by (simp add: q2 renderChunk_def resolve_sample_def)
  have rk: "ranked (query tied_index [1, 0] 2)"
    using second by simp
  from ok q2 strict q1 shown tied tied_query rk show ?thesis
    by (intro conjI)
qed

end
